theory Spec2Isabelle
  imports Main "HOL-Library.Sublist"
begin

section \<open>Values and exceptions\<close>

text \<open>
  Text is a list of characters with code points below 256. The exceptions of the deposit
  code are told apart by what the wrapper's \<open>except\<close> clauses do with them:
  \<^item> \<open>DepositError msg\<close>: a \<open>DepositError\<close> whose first argument \<open>e.args[0]\<close> is the
    text \<open>msg\<close>;
  \<^item> \<open>DepositError_no_args\<close>: a \<open>DepositError\<close> raised without an argument, for which
    \<open>e.args[0]\<close> raises \<open>IndexError\<close>;
  \<^item> \<open>PyException ty txt\<close>: another exception of class \<open>Exception\<close>, with the text
    \<open>ty\<close> that \<open>str(type(e))\<close> gives and the text \<open>txt\<close> that \<open>str(e)\<close> gives;
  \<^item> \<open>Unprintable ty e'\<close>: another exception of class \<open>Exception\<close> for which
    \<open>str(e)\<close> raises \<open>e'\<close> (a message with characters outside ASCII raises
    \<open>UnicodeEncodeError\<close> there);
  \<^item> \<open>BaseException ty txt\<close>: an exception that is not of class \<open>Exception\<close>
    (\<open>SystemExit\<close>, \<open>KeyboardInterrupt\<close>, \<open>GeneratorExit\<close>), which \<open>except Exception\<close>
    does not catch.
\<close>

datatype exn =
    DepositError string
  | DepositError_no_args
  | PyException string string
  | Unprintable string exn
  | BaseException string string

definition builtin :: "string \<Rightarrow> string" where
  "builtin cls = ''<type '' @ [CHR 0x27] @ ''exceptions.'' @ cls @ [CHR 0x27] @ ''>''"

definition quoted :: "string \<Rightarrow> string" where
  "quoted s = [CHR 0x27] @ s @ [CHR 0x27]"

datatype json =
    JNull
  | JBool bool
  | JNumber int
  | JString string
  | JArray "json list"
  | JObject "(string \<times> json) list"

text \<open>The newline character that \<open>log\<close> puts after every line.\<close>

abbreviation nl :: string where
  "nl \<equiv> [CHR 0x0A]"

text \<open>Decimal text of an integer, as \<open>%d\<close> and \<open>str\<close> give it.\<close>

definition digit :: "nat \<Rightarrow> char" where
  "digit n = ''0123456789'' ! n"

fun str_nat :: "nat \<Rightarrow> string" where
  "str_nat n = (if n < 10 then [digit n] else str_nat (n div 10) @ [digit (n mod 10)])"

declare str_nat.simps [simp del]

definition str_int :: "int \<Rightarrow> string" where
  "str_int i = (if i < 0 then ''-'' @ str_nat (nat (- i)) else str_nat (nat i))"

text \<open>Truth value of an attribute that holds text or \<open>None\<close>.\<close>

fun truthy :: "string option \<Rightarrow> bool" where
  "truthy None = False"
| "truthy (Some s) = (s \<noteq> [])"

text \<open>\<open>unicode(x)\<close> of an attribute that holds text or \<open>None\<close>.\<close>

fun unicode :: "string option \<Rightarrow> string" where
  "unicode None = ''None''"
| "unicode (Some s) = s"

section \<open>The collaborators' records\<close>

record user =
  name :: string
  first_name :: string
  last_name :: string

text \<open>
  A repository. The endpoint is text; the empty text stands for an endpoint that is
  empty or \<open>None\<close>, which \<open>not self.api_url\<close> does not tell apart.
\<close>

record repository =
  repo_id :: int
  repo_name :: string
  oaisource :: string
  endpoint :: string
  api_key :: "string option"

text \<open>An author as \<open>paper.json()\<close> lists it: \<open>{'name': {'first': ..., 'last': ...}}\<close>.\<close>

record author =
  name_first :: string
  name_last :: string

text \<open>
  A paper: its key, title and abstract, and the three entries of \<open>paper.json()\<close> the
  deposit reads (\<open>authors\<close>, \<open>records\<close>, \<open>date\<close>). A bibliographic record is a
  dictionary of text fields.
\<close>

record paper =
  pk :: int
  title :: string
  abstract :: "string option"
  authors :: "author list"
  records :: "(string \<times> string) list list"
  date :: string

record BareOaiRecord =
  oai_source :: string
  oai_identifier :: string
  oai_splash_url :: "string option"
  oai_pdf_url :: "string option"

text \<open>What \<open>paper.add_oairecord\<close> hands back: the record as stored, with the paper it is about.\<close>

record OaiRecord = BareOaiRecord +
  about :: int

text \<open>The notification payload, a dictionary with the keys \<open>name\<close>, \<open>repo\<close>, \<open>paperurl\<close>.\<close>

record payload =
  p_name :: string
  p_repo :: string
  p_paperurl :: string

section \<open>HTTP requests and responses\<close>

datatype http_method = GET | POST | PUT | PATCH

record request =
  rq_method :: http_method
  rq_url :: string
  rq_data :: "string option"
  rq_headers :: "(string \<times> string) list"

text \<open>
  A response: the fields \<open>log_request\<close> reads, and what \<open>r.json()\<close> gives (\<open>None\<close>
  when the body is not JSON and \<open>r.json()\<close> raises \<open>ValueError\<close>).
\<close>

record response =
  r_url :: string
  status_code :: int
  r_text :: string
  r_json :: "json option"

section \<open>The environment of a deposit attempt\<close>

text \<open>
  Everything the deposit code calls and does not define:
  \<^item> \<open>ugettext\<close>, the translation of a message (imported as \<open>__\<close>);
  \<^item> \<open>DEPOSIT_NOTIFICATION_CALLBACK\<close> of the settings: \<open>None\<close> when the call returns,
    the exception when it raises;
  \<^item> \<open>add_oairecord\<close> of the paper;
  \<^item> \<open>format_exc\<close> of \<open>traceback\<close>, the stack trace of the exception being handled;
  \<^item> \<open>requests\<close>: the answer of the remote server to a request, given the requests sent
    before it; either a response or the exception the call raises;
  \<^item> \<open>open_file\<close>: the content of the file \<open>open(pdf, 'r')\<close> opens, or the exception
    it raises;
  \<^item> \<open>json_dumps\<close>: \<open>json.dumps\<close>, with its \<open>indent\<close> argument.
\<close>

record env =
  ugettext :: "string \<Rightarrow> string"
  DEPOSIT_NOTIFICATION_CALLBACK :: "payload \<Rightarrow> exn option"
  add_oairecord :: "paper \<Rightarrow> BareOaiRecord \<Rightarrow> OaiRecord"
  format_exc :: "exn \<Rightarrow> string"
  requests :: "request list \<Rightarrow> request \<Rightarrow> exn + response"
  open_file :: "string \<Rightarrow> exn + string"
  json_dumps :: "nat option \<Rightarrow> json \<Rightarrow> string"

section \<open>DepositResult\<close>

text \<open>
  Modelled from the spec: \<open>DEPOSIT_STATUS_CHOICES\<close> of \<open>deposit.models\<close> is not among the
  sources. The spec names the statuses \<open>pending\<close>, \<open>published\<close> and \<open>failed\<close> as
  members of the enumeration; each entry pairs a status with its label, and the code
  reads the first components only.
\<close>

definition DEPOSIT_STATUS_CHOICES :: "(string \<times> string) list" where
  "DEPOSIT_STATUS_CHOICES =
     [(''pending'', ''Pending''), (''published'', ''Published''), (''failed'', ''Failed'')]"

record DepositResult =
  "identifier" :: "string option"
  splash_url :: "string option"
  pdf_url :: "string option"
  logs :: "string option"
  status :: string
  message :: "string option"
  oairecord :: "OaiRecord option"
  additional_info :: "string list"

text \<open>
  \<open>DepositResult.__init__\<close>, with the enumeration it checks the status against as its
  first argument.
\<close>

definition DepositResult_init ::
  "(string \<times> string) list \<Rightarrow> string option \<Rightarrow> string option \<Rightarrow> string option \<Rightarrow>
   string option \<Rightarrow> string \<Rightarrow> string option \<Rightarrow> exn + DepositResult" where
  "DepositResult_init choices identifier' splash_url' pdf_url' logs' status' message' =
     (if status' \<notin> set (map fst choices)
      then Inl (PyException (builtin ''ValueError'') (''invalid status '' @ status'))
      else Inr \<lparr>identifier = identifier', splash_url = splash_url', pdf_url = pdf_url',
                logs = logs', status = status', message = message',
                oairecord = None, additional_info = []\<rparr>)"

section \<open>RepositoryProtocol\<close>

text \<open>
  A protocol instance from \<open>init_deposit\<close> on: the repository, the paper and the user it
  is bound to and the log buffer \<open>_logs\<close>. Three more fields record, in order, what the
  attempt does to the outside: the HTTP requests it sends, the payloads it calls the
  notification callback with, and the records it asks the paper to attach.
\<close>

record RepositoryProtocol =
  repository :: repository
  p_logs :: string
  paper :: paper
  user :: user
  sent :: "request list"
  notified :: "payload list"
  attached :: "BareOaiRecord list"

text \<open>
  A method that may raise: from the instance to what it returns or raises, and the
  instance afterwards.
\<close>

type_synonym ('s, 'a) action = "'s \<Rightarrow> (exn + 'a) \<times> 's"

definition return :: "'a \<Rightarrow> ('s, 'a) action" where
  "return x self = (Inr x, self)"

definition raise :: "exn \<Rightarrow> ('s, 'a) action" where
  "raise e self = (Inl e, self)"

definition bind :: "('s, 'a) action \<Rightarrow> ('a \<Rightarrow> ('s, 'b) action) \<Rightarrow> ('s, 'b) action" where
  "bind m f self = (case m self of (Inl e, self') \<Rightarrow> (Inl e, self') | (Inr x, self') \<Rightarrow> f x self')"

definition init_deposit ::
  "paper \<Rightarrow> user \<Rightarrow> 'a RepositoryProtocol_scheme \<Rightarrow> bool \<times> 'a RepositoryProtocol_scheme" where
  "init_deposit paper' user' self = (True, self\<lparr>paper := paper', user := user', p_logs := []\<rparr>)"

definition log :: "string \<Rightarrow> 'a RepositoryProtocol_scheme \<Rightarrow> 'a RepositoryProtocol_scheme" where
  "log line self = self\<lparr>p_logs := p_logs self @ line @ nl\<rparr>"

definition log_request ::
  "response \<Rightarrow> int \<Rightarrow> string \<Rightarrow> ('a RepositoryProtocol_scheme, unit) action" where
  "log_request r expected_status_code error_msg self =
     (let self1 = log (''--- Request to '' @ r_url r @ nl) self;
          self2 = log (''Status code: '' @ str_int (status_code r) @ '' (expected '' @
                       str_int expected_status_code @ '')'' @ nl) self1
      in if status_code r \<noteq> expected_status_code
         then (Inl (DepositError error_msg),
               log [] (log (r_text r) (log ''Server response:'' self2)))
         else (Inr (), self2))"

subsection \<open>submit_deposit_wrapper\<close>

text \<open>
  The name \<open>reverse\<close>. Line 155 calls \<open>reverse('paper', args=[self.paper.pk])\<close>, and
  \<open>deposit/protocol.py\<close> binds no such name: it imports \<open>traceback\<close>, \<open>settings\<close>,
  \<open>ugettext\<close>, \<open>BareOaiRecord\<close>, \<open>BaseMetadataForm\<close> and \<open>DEPOSIT_STATUS_CHOICES\<close>, and
  defines \<open>DepositError\<close>, \<open>DepositResult\<close> and \<open>RepositoryProtocol\<close>. Looking the name up
  raises \<open>NameError\<close>, whatever the arguments.
\<close>

definition reverse :: "string \<Rightarrow> int \<Rightarrow> exn + string" where
  "reverse viewname k =
     Inl (PyException (builtin ''NameError'')
            (''global name '' @ quoted ''reverse'' @ '' is not defined''))"

text \<open>
  The payload computed before the \<open>try\<close> (lines 149 to 156), or the exception raised
  on the way.
\<close>

definition notification_payload :: "'a RepositoryProtocol_scheme \<Rightarrow> exn + payload" where
  "notification_payload self =
     (let name' = (if first_name (user self) \<noteq> [] \<and> last_name (user self) \<noteq> []
                   then first_name (user self) @ '' '' @ last_name (user self)
                   else name (user self))
      in case reverse ''paper'' (pk (paper self)) of
           Inl e \<Rightarrow> Inl e
         | Inr paperurl \<Rightarrow>
             Inr \<lparr>p_name = name', p_repo = repo_name (repository self),
                  p_paperurl = paperurl\<rparr>)"

text \<open>One call of the notification callback; the call is recorded whether it returns or raises.\<close>

definition notify :: "env \<Rightarrow> payload \<Rightarrow> ('a RepositoryProtocol_scheme, unit) action" where
  "notify env p self =
     (case DEPOSIT_NOTIFICATION_CALLBACK env p of
        None \<Rightarrow> (Inr (), self\<lparr>notified := notified self @ [p]\<rparr>)
      | Some e \<Rightarrow> (Inl e, self\<lparr>notified := notified self @ [p]\<rparr>))"

text \<open>The record built for a result with a splash URL (lines 163 to 168).\<close>

definition deposition_record :: "'a RepositoryProtocol_scheme \<Rightarrow> DepositResult \<Rightarrow> BareOaiRecord" where
  "deposition_record self result =
     \<lparr>oai_source = oaisource (repository self),
      oai_identifier = ''deposition:'' @ str_int (repo_id (repository self)) @ '':'' @
                       unicode (identifier result),
      oai_splash_url = splash_url result,
      oai_pdf_url = pdf_url result\<rparr>"

text \<open>
  The body of the \<open>try\<close> (lines 158 to 173), for a \<open>submit_deposit\<close> given as an action
  of the instance.
\<close>

definition wrapper_try ::
  "env \<Rightarrow> ('a RepositoryProtocol_scheme, DepositResult) action \<Rightarrow> payload \<Rightarrow>
   ('a RepositoryProtocol_scheme, DepositResult) action" where
  "wrapper_try env submit_deposit p self =
     (case submit_deposit self of
        (Inl e, self1) \<Rightarrow> (Inl e, self1)
      | (Inr result, self1) \<Rightarrow>
          (let result1 = result\<lparr>logs := Some (p_logs self1)\<rparr>;
               (result2, self2) =
                 (if truthy (splash_url result1)
                  then (let rec = deposition_record self1 result1
                        in (result1\<lparr>oairecord := Some (add_oairecord env (paper self1) rec)\<rparr>,
                            self1\<lparr>attached := attached self1 @ [rec]\<rparr>))
                  else (result1, self1))
           in case notify env p self2 of
                (Inl e, self3) \<Rightarrow> (Inl e, self3)
              | (Inr u, self3) \<Rightarrow> (Inr result2, self3)))"

text \<open>The payload of the \<open>DepositError\<close> handler: the message goes after the paper URL.\<close>

definition failure_payload :: "payload \<Rightarrow> string \<Rightarrow> payload" where
  "failure_payload p msg = p\<lparr>p_paperurl := p_paperurl p @ '' '' @ msg\<rparr>"

definition generic_message :: string where
  "generic_message = ''Failed to connect to the repository. Please try again later.''"

text \<open>
  The two \<open>except\<close> clauses (lines 174 to 183), for the exception \<open>e\<close> that left the
  body of the \<open>try\<close>. An exception raised inside a clause is not caught by the other
  clause of the same \<open>try\<close>: it leaves the statement. So does an exception that neither
  clause catches.
\<close>

fun except_clauses ::
  "env \<Rightarrow> payload \<Rightarrow> exn \<Rightarrow> ('a RepositoryProtocol_scheme, DepositResult) action" where
  "except_clauses env p (DepositError msg) self1 =
     (let self2 = log (''Message: '' @ msg) self1
      in case notify env (failure_payload p msg) self2 of
           (Inl e, self3) \<Rightarrow> (Inl e, self3)
         | (Inr u, self3) \<Rightarrow>
             (DepositResult_init DEPOSIT_STATUS_CHOICES None None None
                (Some (p_logs self3)) ''failed'' (Some msg), self3))"
| "except_clauses env p DepositError_no_args self1 =
     (Inl (PyException (builtin ''IndexError'') ''tuple index out of range''), self1)"
| "except_clauses env p (PyException ty txt) self1 =
     (let self2 = log ''Caught exception:'' self1;
          self3 = log (ty @ '': '' @ txt @ []) self2;
          self4 = log (format_exc env (PyException ty txt)) self3
      in (DepositResult_init DEPOSIT_STATUS_CHOICES None None None
            (Some (p_logs self4)) ''failed'' (Some (ugettext env generic_message)),
          self4))"
| "except_clauses env p (Unprintable ty e) self1 =
     (Inl e, log ''Caught exception:'' self1)"
| "except_clauses env p (BaseException ty txt) self1 =
     (Inl (BaseException ty txt), self1)"

text \<open>The \<open>try\<close> statement (lines 157 to 183), for a payload \<open>p\<close>.\<close>

definition try_statement ::
  "env \<Rightarrow> ('a RepositoryProtocol_scheme, DepositResult) action \<Rightarrow> payload \<Rightarrow>
   ('a RepositoryProtocol_scheme, DepositResult) action" where
  "try_statement env submit_deposit p self =
     (case wrapper_try env submit_deposit p self of
        (Inr result, self1) \<Rightarrow> (Inr result, self1)
      | (Inl e, self1) \<Rightarrow> except_clauses env p e self1)"

text \<open>
  The wrapper: the payload, then the \<open>try\<close> statement. The payload is computed before
  the \<open>try\<close>, so an exception raised there leaves the wrapper, and \<open>submit_deposit\<close> is
  not called.
\<close>

definition submit_deposit_wrapper ::
  "env \<Rightarrow> ('a RepositoryProtocol_scheme, DepositResult) action \<Rightarrow>
   ('a RepositoryProtocol_scheme, DepositResult) action" where
  "submit_deposit_wrapper env submit_deposit self =
     (case notification_payload self of
        Inl e \<Rightarrow> (Inl e, self)
      | Inr p \<Rightarrow> try_statement env submit_deposit p self)"

section \<open>Python operations on text and on decoded JSON\<close>

text \<open>
  \<open>s.split(sep)\<close> for a separator of one character, \<open>s.strip()\<close>, \<open>s.replace(old, new)\<close>
  and \<open>repr\<close> of a text. Whitespace is what \<open>isspace\<close> holds of among the code points
  below 256.
\<close>

fun split :: "char \<Rightarrow> string \<Rightarrow> string list" where
  "split sep [] = [[]]"
| "split sep (c # cs) =
     (if c = sep then [] # split sep cs
      else (case split sep cs of [] \<Rightarrow> [[c]] | piece # pieces \<Rightarrow> (c # piece) # pieces))"

definition isspace :: "char \<Rightarrow> bool" where
  "isspace c = (of_char c \<in> {9, 10, 11, 12, 13, 28, 29, 30, 31, 32, 133, 160 :: nat})"

fun lstrip :: "string \<Rightarrow> string" where
  "lstrip [] = []"
| "lstrip (c # cs) = (if isspace c then lstrip cs else c # cs)"

definition rstrip :: "string \<Rightarrow> string" where
  "rstrip s = rev (lstrip (rev s))"

definition strip :: "string \<Rightarrow> string" where
  "strip s = rstrip (lstrip s)"

fun replace :: "string \<Rightarrow> string \<Rightarrow> string \<Rightarrow> string" where
  "replace old new [] = (if old = [] then new else [])"
| "replace old new (c # cs) =
     (if old = [] then new @ c # replace old new cs
      else if prefix old (c # cs) then new @ replace old new (drop (length old) (c # cs))
      else c # replace old new cs)"

definition hex_digit :: "nat \<Rightarrow> char" where
  "hex_digit n = ''0123456789abcdef'' ! n"

definition escape :: "char \<Rightarrow> char \<Rightarrow> string" where
  "escape quote c =
     (if c = quote \<or> c = CHR 0x5C then [CHR 0x5C, c]
      else if c = CHR 0x09 then [CHR 0x5C, CHR ''t'']
      else if c = CHR 0x0A then [CHR 0x5C, CHR ''n'']
      else if c = CHR 0x0D then [CHR 0x5C, CHR ''r'']
      else if of_char c < (32 :: nat) \<or> (127 :: nat) \<le> of_char c
      then [CHR 0x5C, CHR ''x'', hex_digit (of_char c div 16), hex_digit (of_char c mod 16)]
      else [c])"

definition repr_unicode :: "string \<Rightarrow> string" where
  "repr_unicode s =
     (let quote = (if CHR 0x27 \<in> set s \<and> CHR 0x22 \<notin> set s then CHR 0x22 else CHR 0x27)
      in ''u'' @ [quote] @ concat (map (escape quote) s) @ [quote])"

text \<open>\<open>sep.join(pieces)\<close>.\<close>

fun join :: "string \<Rightarrow> string list \<Rightarrow> string" where
  "join sep [] = []"
| "join sep [p] = p"
| "join sep (p # q # ps) = p @ sep @ join sep (q # ps)"

text \<open>
  \<open>repr\<close> of a decoded JSON value (numbers are integers of machine size; a dictionary
  lists its entries in the order of the model), and the text \<open>unicode(x)\<close> and
  \<open>'{}'.format(x)\<close> give.
\<close>

fun py_repr :: "json \<Rightarrow> string" where
  "py_repr JNull = ''None''"
| "py_repr (JBool b) = (if b then ''True'' else ''False'')"
| "py_repr (JNumber n) = str_int n"
| "py_repr (JString s) = repr_unicode s"
| "py_repr (JArray xs) = ''['' @ join '', '' (map py_repr xs) @ '']''"
| "py_repr (JObject kvs) =
     ''{'' @ join '', '' (map (\<lambda>(k, v). repr_unicode k @ '': '' @ py_repr v) kvs) @ ''}''"

fun py_unicode :: "json \<Rightarrow> string" where
  "py_unicode (JString s) = s"
| "py_unicode v = py_repr v"

fun type_name :: "json \<Rightarrow> string" where
  "type_name JNull = ''NoneType''"
| "type_name (JBool b) = ''bool''"
| "type_name (JNumber n) = ''int''"
| "type_name (JString s) = ''unicode''"
| "type_name (JArray xs) = ''list''"
| "type_name (JObject kvs) = ''dict''"

definition TypeError :: "string \<Rightarrow> exn" where
  "TypeError txt = PyException (builtin ''TypeError'') txt"

text \<open>\<open>v[k]\<close> for a text key \<open>k\<close>.\<close>

fun getitem :: "json \<Rightarrow> string \<Rightarrow> exn + json" where
  "getitem (JObject kvs) k =
     (case map_of kvs k of
        None \<Rightarrow> Inl (PyException (builtin ''KeyError'') (repr_unicode k))
      | Some v \<Rightarrow> Inr v)"
| "getitem (JString s) k = Inl (TypeError ''string indices must be integers'')"
| "getitem (JArray xs) k = Inl (TypeError ''list indices must be integers, not unicode'')"
| "getitem v k =
     Inl (TypeError (quoted (type_name v) @ '' object has no attribute '' @ quoted ''__getitem__''))"

text \<open>\<open>v[1:]\<close>.\<close>

fun slice_from_1 :: "json \<Rightarrow> exn + json" where
  "slice_from_1 (JString s) = Inr (JString (drop 1 s))"
| "slice_from_1 (JArray xs) = Inr (JArray (drop 1 xs))"
| "slice_from_1 (JObject kvs) = Inl (TypeError ''unhashable type'')"
| "slice_from_1 v =
     Inl (TypeError (quoted (type_name v) @ '' object has no attribute '' @ quoted ''__getitem__''))"

text \<open>\<open>s + v\<close> for a text \<open>s\<close>.\<close>

fun concat_text :: "string \<Rightarrow> json \<Rightarrow> exn + string" where
  "concat_text s (JString t) = Inr (s @ t)"
| "concat_text s v =
     Inl (TypeError (''coercing to Unicode: need string or buffer, '' @ type_name v @ '' found''))"

text \<open>The values \<open>for entry in v\<close> runs through.\<close>

fun iterate :: "json \<Rightarrow> exn + json list" where
  "iterate (JArray xs) = Inr xs"
| "iterate (JObject kvs) = Inr (map (\<lambda>(k, v). JString k) kvs)"
| "iterate (JString s) = Inr (map (\<lambda>c. JString [c]) s)"
| "iterate v = Inl (TypeError (quoted (type_name v) @ '' object is not iterable''))"

text \<open>\<open>r.json()\<close>.\<close>

definition response_json :: "response \<Rightarrow> exn + json" where
  "response_json r =
     (case r_json r of
        None \<Rightarrow> Inl (PyException (builtin ''ValueError'') ''No JSON object could be decoded'')
      | Some v \<Rightarrow> Inr v)"

text \<open>The value found in a document by following a list of keys, as \<open>v[k1][k2]...\<close> does.\<close>

fun at_path :: "json \<Rightarrow> string list \<Rightarrow> exn + json" where
  "at_path v [] = Inr v"
| "at_path v (k # ks) = (case getitem v k of Inl e \<Rightarrow> Inl e | Inr w \<Rightarrow> at_path w ks)"

section \<open>OSFProtocol\<close>

text \<open>The validated form: the entries \<open>abstract\<close>, \<open>tags\<close> and \<open>license\<close> of \<open>cleaned_data\<close>.\<close>

record form =
  cd_abstract :: string
  cd_tags :: string
  cd_license :: string

record OSFProtocol = RepositoryProtocol +
  api_url :: string
  no_license_id :: string
  license_id :: string
  pub_date :: string
  headers :: "(string \<times> string) list"
  node_id :: json
  storage_url :: string

text \<open>
  \<open>OSFProtocol.__init__\<close>, as what it sets on the instance \<open>self\<close> being built: the
  repository, the API endpoint and the "no license" identifier of that endpoint.
\<close>

definition OSFProtocol_init :: "repository \<Rightarrow> OSFProtocol \<Rightarrow> OSFProtocol" where
  "OSFProtocol_init repository' self =
     (let self1 = self\<lparr>repository := repository'\<rparr>;
          self2 = self1\<lparr>api_url := endpoint repository'\<rparr>
      in if api_url self2 = ''https://test-api.osf.io/''
         then self2\<lparr>no_license_id := ''58fd62fcda3e2400012ca5cc''\<rparr>
         else self2\<lparr>no_license_id := ''563c1cf88c5e4a3877f9e965''\<rparr>)"

definition OSFProtocol_init_deposit :: "paper \<Rightarrow> user \<Rightarrow> OSFProtocol \<Rightarrow> bool \<times> OSFProtocol" where
  "OSFProtocol_init_deposit paper' user' self =
     (case init_deposit paper' user' self of (verdict, self1) \<Rightarrow> (True, self1))"

definition create_tags :: "form \<Rightarrow> string list" where
  "create_tags form =
     (let tags = split CHR '','' (cd_tags form);
          tags1 = map strip tags;
          tags2 = filter (\<lambda>item. item \<noteq> []) tags1
      in tags2)"

text \<open>\<open>get_key_data\<close>: the first truthy value under the key, else \<open>None\<close>.\<close>

fun get_key_data :: "string \<Rightarrow> (string \<times> string) list list \<Rightarrow> string option" where
  "get_key_data key [] = None"
| "get_key_data key (item # items) =
     (if truthy (map_of item key) then map_of item key else get_key_data key items)"

definition translate_author :: "author \<Rightarrow> string \<Rightarrow> json" where
  "translate_author dissemin_authors goal =
     (let author = name_first dissemin_authors @ '' '' @ name_last dissemin_authors
      in if goal = ''contrib''
         then JObject [(''data'', JObject [(''type'', JString ''contributors''),
                (''attributes'', JObject [(''full_name'', JString author)])])]
         else JString author)"

definition translate_links :: "json \<Rightarrow> exn + json" where
  "translate_links node_links =
     (case getitem node_links ''links'' of
        Inl e \<Rightarrow> Inl e
      | Inr links \<Rightarrow> getitem links ''upload'')"

subsection \<open>The steps of submit_deposit\<close>

text \<open>
  Three ways to make an action: from a value that is a result or an exception, from a
  line to log, and from a request to send. A request is recorded as sent whether the
  call returns a response or raises.
\<close>

definition lift :: "exn + 'a \<Rightarrow> ('s, 'a) action" where
  "lift v self = (v, self)"

definition do_log :: "string \<Rightarrow> ('a RepositoryProtocol_scheme, unit) action" where
  "do_log line self = (Inr (), log line self)"

definition send :: "env \<Rightarrow> request \<Rightarrow> ('a RepositoryProtocol_scheme, response) action" where
  "send env rq self = (requests env (sent self) rq, self\<lparr>sent := sent self @ [rq]\<rparr>)"

definition author_json :: "author \<Rightarrow> json" where
  "author_json a =
     JObject [(''name'', JObject [(''first'', JString (name_first a)), (''last'', JString (name_last a))])]"

definition min_node_structure :: "OSFProtocol \<Rightarrow> string \<Rightarrow> string list \<Rightarrow> json" where
  "min_node_structure self abstract' tags =
     JObject [(''data'', JObject [
       (''type'', JString ''nodes''),
       (''attributes'', JObject [
          (''title'', JString (title (paper self))),
          (''category'', JString ''project''),
          (''description'', JString abstract'),
          (''tags'', JArray (map JString tags))])])]"

definition create_node ::
  "env \<Rightarrow> string \<Rightarrow> string list \<Rightarrow> author list \<Rightarrow> (OSFProtocol, unit) action" where
  "create_node env abstract' tags authors' self =
     bind (do_log ''### Creating the metadata'') (\<lambda>u1.
     bind (do_log (json_dumps env (Some 4) (min_node_structure self abstract' tags) @ [])) (\<lambda>u2.
     bind (do_log (json_dumps env (Some 4) (JArray (map author_json authors')) @ [])) (\<lambda>u3.
     bind (send env \<lparr>rq_method = POST, rq_url = api_url self @ ''v2/nodes/'',
                      rq_data = Some (json_dumps env None (min_node_structure self abstract' tags)),
                      rq_headers = headers self\<rparr>) (\<lambda>osf_response.
     bind (log_request osf_response 201 (ugettext env ''Unable to create a project on OSF.'')) (\<lambda>u4.
     bind (lift (response_json osf_response)) (\<lambda>body.
     bind (lift (getitem body ''data'')) (\<lambda>data'.
     bind (lift (getitem data' ''id'')) (\<lambda>id' self'.
       (Inr (), self'\<lparr>node_id := id'\<rparr>))))))))) self"

definition get_newnode_osf_storage :: "env \<Rightarrow> json \<Rightarrow> (OSFProtocol, json) action" where
  "get_newnode_osf_storage env node_id' self =
     (let self1 = self\<lparr>storage_url :=
                   api_url self @ ''v2/nodes/'' @ py_unicode (node_id self) @ ''/files/''\<rparr>
      in bind (send env \<lparr>rq_method = GET, rq_url = storage_url self1, rq_data = None,
                         rq_headers = headers self1\<rparr>) (\<lambda>osf_storage_data.
         bind (log_request osf_storage_data 200 (ugettext env ''Unable to authenticate to OSF.'')) (\<lambda>u.
         lift (response_json osf_storage_data))) self1)"

text \<open>The loop of \<open>add_contributors\<close>: one POST for each author, in order.\<close>

fun add_contributors_loop :: "env \<Rightarrow> string \<Rightarrow> author list \<Rightarrow> (OSFProtocol, unit) action" where
  "add_contributors_loop env contrib_url [] = return ()"
| "add_contributors_loop env contrib_url (author # authors') =
     (\<lambda>self.
       bind (send env \<lparr>rq_method = POST, rq_url = contrib_url,
                        rq_data = Some (json_dumps env None (translate_author author ''contrib'')),
                        rq_headers = headers self\<rparr>) (\<lambda>contrib_response.
       bind (log_request contrib_response 201 (ugettext env ''Unable to add contributors.'')) (\<lambda>u.
       add_contributors_loop env contrib_url authors')) self)"

definition add_contributors :: "env \<Rightarrow> author list \<Rightarrow> (OSFProtocol, unit) action" where
  "add_contributors env authors' self =
     bind (lift (concat_text (api_url self @ ''v2/nodes/'') (node_id self))) (\<lambda>url.
     add_contributors_loop env (url @ ''/contributors/'') authors') self"

text \<open>
  The document \<open>create_license\<close> sends: \<open>license_structure\<close> after the assignment of its
  \<open>attributes\<close> (lines 191 to 217). The source also builds \<open>license_url\<close>, which it
  does not use.
\<close>

definition license_structure :: "OSFProtocol \<Rightarrow> author list \<Rightarrow> json" where
  "license_structure self authors' =
     (let authors_list = map (\<lambda>author. translate_author author ''optional'') authors'
      in JObject [(''data'', JObject [
           (''type'', JString ''nodes''),
           (''id'', node_id self),
           (''attributes'',
              (if license_id self = no_license_id self
               then JObject [(''node_license'', JObject [
                      (''year'', JString (pub_date self)),
                      (''copyright_holders'', JArray authors_list)])]
               else JObject [(''node_license'', JObject [])])),
           (''relationships'', JObject [(''license'', JObject [(''data'', JObject [
              (''type'', JString ''licenses''),
              (''id'', JString (license_id self))])])])])])"

definition create_license :: "env \<Rightarrow> author list \<Rightarrow> (OSFProtocol, unit) action" where
  "create_license env authors' self =
     bind (lift (concat_text (api_url self @ ''v2/nodes/'') (node_id self))) (\<lambda>url.
     bind (send env \<lparr>rq_method = PATCH, rq_url = url @ ''/'',
                      rq_data = Some (json_dumps env None (license_structure self authors')),
                      rq_headers = headers self\<rparr>) (\<lambda>license_req.
     bind (log_request license_req 200 (ugettext env ''Unable to update license.'')) (\<lambda>u1.
     bind (do_log ''### Updating License'') (\<lambda>u2.
     bind (do_log (str_int (status_code license_req))) (\<lambda>u3.
     bind (do_log (r_text license_req)) (\<lambda>u4.
     bind (do_log ''=========='') (\<lambda>u5.
     bind (do_log (''self.license_id: '' @ license_id self @ ''  | '' @
                   ''self.no_license_id: '' @ no_license_id self)) (\<lambda>u6.
     do_log ''=========='')))))))) self"

definition min_preprint_structure ::
  "OSFProtocol \<Rightarrow> json \<Rightarrow> (string \<times> string) list list \<Rightarrow> json" where
  "min_preprint_structure self pf_path records' =
     (let paper_doi = get_key_data ''doi'' records'
      in JObject [(''data'', JObject [
           (''attributes'', JObject [
              (''doi'', (case paper_doi of None \<Rightarrow> JNull | Some doi \<Rightarrow> JString doi))]),
           (''relationships'', JObject [
              (''node'', JObject [(''data'', JObject [
                 (''type'', JString ''nodes''), (''id'', node_id self)])]),
              (''primary_file'', JObject [(''data'', JObject [
                 (''type'', JString ''primary_files''), (''id'', pf_path)])]),
              (''provider'', JObject [(''data'', JObject [
                 (''type'', JString ''providers''), (''id'', JString ''osf'')])])])])])"

definition create_preprint ::
  "env \<Rightarrow> json \<Rightarrow> (string \<times> string) list list \<Rightarrow> (OSFProtocol, json) action" where
  "create_preprint env pf_path records' self =
     bind (do_log ''### Creating Preprint'') (\<lambda>u1.
     bind (send env \<lparr>rq_method = POST, rq_url = api_url self @ ''v2/preprints/'',
                      rq_data = Some (json_dumps env None (min_preprint_structure self pf_path records')),
                      rq_headers = headers self\<rparr>) (\<lambda>osf_response.
     bind (log_request osf_response 201 (ugettext env ''Unable to create the preprint.'')) (\<lambda>u2.
     bind (do_log (str_int (status_code osf_response))) (\<lambda>u3.
     lift (response_json osf_response))))) self"

text \<open>
  The document \<open>update_preprint_license\<close> sends: \<open>updated_preprint_struc\<close> after the
  assignment of its \<open>attributes\<close> (lines 293 to 319).
\<close>

definition updated_preprint_struc :: "OSFProtocol \<Rightarrow> author list \<Rightarrow> json \<Rightarrow> json" where
  "updated_preprint_struc self authors' preprint_id =
     (let authors_list = map (\<lambda>author. translate_author author ''optional'') authors'
      in JObject [(''data'', JObject [
           (''type'', JString ''nodes''),
           (''id'', preprint_id),
           (''attributes'',
              (if license_id self = no_license_id self
               then JObject [(''license_record'', JObject [
                      (''year'', JString (pub_date self)),
                      (''copyright_holders'', JArray authors_list)])]
               else JObject [(''license_record'', JObject [])])),
           (''relationships'', JObject [(''license'', JObject [(''data'', JObject [
              (''type'', JString ''licenses''),
              (''id'', JString (license_id self))])])])])])"

definition update_preprint_license ::
  "env \<Rightarrow> author list \<Rightarrow> json \<Rightarrow> (OSFProtocol, unit) action" where
  "update_preprint_license env authors' preprint_id self =
     bind (do_log ''### Updating the Preprint License'') (\<lambda>u1.
     bind (send env \<lparr>rq_method = PATCH,
                      rq_url = api_url self @ ''v2/preprints/'' @ py_unicode preprint_id @ ''/'',
                      rq_data = Some (json_dumps env None
                                        (updated_preprint_struc self authors' preprint_id)),
                      rq_headers = headers self\<rparr>) (\<lambda>license_req.
     bind (log_request license_req 200 (ugettext env ''Unable to update the Preprint License.'')) (\<lambda>u2.
     bind (do_log (str_int (status_code license_req))) (\<lambda>u3.
     do_log (r_text license_req))))) self"

subsection \<open>submit_deposit\<close>

text \<open>
  The upload links of the storage entries (the set comprehension of line 363): each
  entry's link is looked up and must be hashable. \<open>distinct_links\<close> are the members of the
  set; a set has no order of its own, and the model lists them by \<open>remdups\<close>.
\<close>

fun collect_links :: "json list \<Rightarrow> exn + json list" where
  "collect_links [] = Inr []"
| "collect_links (entry # entries) =
     (case translate_links entry of
        Inl e \<Rightarrow> Inl e
      | Inr link \<Rightarrow>
          (case link of
             JArray xs \<Rightarrow> Inl (TypeError (''unhashable type: '' @ quoted ''list''))
           | JObject kvs \<Rightarrow> Inl (TypeError (''unhashable type: '' @ quoted ''dict''))
           | _ \<Rightarrow> (case collect_links entries of
                     Inl e \<Rightarrow> Inl e
                   | Inr links \<Rightarrow> Inr (link # links))))"

definition distinct_links :: "json list \<Rightarrow> json list" where
  "distinct_links links = remdups links"

definition public_prefix :: "OSFProtocol \<Rightarrow> string \<Rightarrow> string \<Rightarrow> string" where
  "public_prefix self sandbox production =
     (if api_url self = ''https://test-api.osf.io/'' then sandbox else production)"

text \<open>\<open>get\<close> reads the instance where the source reads an attribute of \<open>self\<close>.\<close>

definition get :: "('s, 's) action" where
  "get self = (Inr self, self)"

text \<open>The assignment of \<open>self.headers\<close> (lines 351 to 354).\<close>

definition assign_headers :: "string \<Rightarrow> (OSFProtocol, unit) action" where
  "assign_headers api_key' self =
     (Inr (), self\<lparr>headers := [(''Authorization'', ''Bearer '' @ api_key'),
                                (''Content-Type'', ''application/vnd.api+json'')]\<rparr>)"

text \<open>
  Lines 350 to 405: the remote calls and the public URLs. Nothing here reads or writes
  \<open>deposit_result\<close>; the three URLs are logged.
\<close>

definition remote_calls ::
  "env \<Rightarrow> string \<Rightarrow> string \<Rightarrow> string \<Rightarrow> string list \<Rightarrow> author list \<Rightarrow>
   (string \<times> string) list list \<Rightarrow> (OSFProtocol, unit) action" where
  "remote_calls env pdf api_key' abstract' tags authors' records' =
     bind (assign_headers api_key') (\<lambda>u0.
     bind (create_node env abstract' tags authors') (\<lambda>u1.
     bind (do_log ''### Creating a new depository'') (\<lambda>u2.
     bind (get) (\<lambda>self1.
     bind (get_newnode_osf_storage env (node_id self1)) (\<lambda>osf_storage_data.
     bind (lift (getitem osf_storage_data ''data'')) (\<lambda>osf_links.
     bind (lift (iterate osf_links)) (\<lambda>entries.
     bind (lift (collect_links entries)) (\<lambda>links.
     bind (do_log ''### Uploading the PDF'') (\<lambda>u3.
     bind (lift (open_file env pdf)) (\<lambda>data'.
     bind (get) (\<lambda>self2.
     bind (send env \<lparr>rq_method = PUT,
              rq_url = replace ([CHR 0x27] @ '']'') []
                         (replace (''[u'' @ [CHR 0x27]) []
                            (py_repr (JArray (distinct_links links)))) @
                       ''?kind=file&name=article.pdf'',
              rq_data = Some data', rq_headers = headers self2\<rparr>) (\<lambda>primary_file_data.
     bind (log_request primary_file_data 201 (ugettext env ''Unable to upload the PDF file.'')) (\<lambda>u4.
     bind (lift (response_json primary_file_data)) (\<lambda>body.
     bind (lift (getitem body ''data'')) (\<lambda>data''.
     bind (lift (getitem data'' ''attributes'')) (\<lambda>attributes.
     bind (lift (getitem attributes ''path'')) (\<lambda>path.
     bind (lift (slice_from_1 path)) (\<lambda>pf_path.
     bind (add_contributors env authors') (\<lambda>u5.
     bind (create_license env authors') (\<lambda>u6.
     bind (create_preprint env pf_path records') (\<lambda>osf_preprint_response.
     bind (lift (getitem osf_preprint_response ''data'')) (\<lambda>data'''.
     bind (lift (getitem data''' ''id'')) (\<lambda>preprint_id.
     bind (get) (\<lambda>self3.
     bind (lift (concat_text (public_prefix self3 ''https://test.osf.io/'' ''https://osf.io'')
                   preprint_id)) (\<lambda>preprint_public_url.
     bind (update_preprint_license env authors' preprint_id) (\<lambda>u7.
     bind (get) (\<lambda>self4.
     bind (lift (concat_text (public_prefix self4 ''https://test.osf.io/'' ''https://osf.io/'')
                   (node_id self4))) (\<lambda>project_public_url.
     bind (do_log ''### FINAL DEBUG'') (\<lambda>u8.
     bind (do_log project_public_url) (\<lambda>u9.
     bind (do_log preprint_public_url) (\<lambda>u10.
     do_log (preprint_public_url @ ''/download''))))))))))))))))))))))))))))))))"

text \<open>
  \<open>submit_deposit\<close>. The result is built at line 348 and returned at line 411; the
  assignments of its identifier and URLs (lines 407 to 409) are comments in the source.
\<close>

definition submit_deposit ::
  "env \<Rightarrow> string \<Rightarrow> form \<Rightarrow> bool \<Rightarrow> (OSFProtocol, DepositResult) action" where
  "submit_deposit env pdf form dry_run self =
     (if api_url self = []
      then raise (DepositError (ugettext env ''No Repository endpoint provided.'')) self
      else (case api_key (repository self) of
        None \<Rightarrow> raise (DepositError (ugettext env ''No OSF token provided.'')) self
      | Some api_key' \<Rightarrow>
          (let self1 = self\<lparr>license_id := cd_license form\<rparr>;
               abstract' = cd_abstract form;
               authors' = authors (paper self1);
               records' = records (paper self1);
               self2 = self1\<lparr>pub_date := take (length (date (paper self1)) - 6) (date (paper self1))\<rparr>;
               tags = create_tags form
           in bind (lift (DepositResult_init DEPOSIT_STATUS_CHOICES None None None None
                            ''published'' None)) (\<lambda>deposit_result.
              bind (remote_calls env pdf api_key' abstract' tags authors' records') (\<lambda>u.
              return deposit_result)) self2)))"

section \<open>A sample attempt\<close>

text \<open>
  A paper with three authors, deposited on the sandbox endpoint by a server that answers
  the nine calls of the attempt with the status codes the protocol expects.
\<close>

definition sample_paper :: paper where
  "sample_paper = \<lparr>pk = 42, title = ''On deposits'', abstract = Some ''An abstract.'',
     authors = [\<lparr>name_first = ''Ada'', name_last = ''Lovelace''\<rparr>,
                \<lparr>name_first = ''Alan'', name_last = ''Turing''\<rparr>,
                \<lparr>name_first = ''Emmy'', name_last = ''Noether''\<rparr>],
     records = [[(''splash_url'', ''http://example.org/1'')], [(''doi'', ''10.1000/182'')]],
     date = ''2017-05-03''\<rparr>"

definition sample_user :: user where
  "sample_user = \<lparr>name = ''ada'', first_name = ''Ada'', last_name = ''Lovelace''\<rparr>"

definition sample_repository :: repository where
  "sample_repository = \<lparr>repo_id = 7, repo_name = ''OSF sandbox'', oaisource = ''osf'',
     endpoint = ''https://test-api.osf.io/'', api_key = Some ''s3cr3t''\<rparr>"

definition sample_form :: form where
  "sample_form = \<lparr>cd_abstract = ''An abstract.'', cd_tags = ''a, b ,, c'',
     cd_license = ''58fd62fcda3e2400012ca5cc''\<rparr>"

definition blank :: OSFProtocol where
  "blank = \<lparr>repository = sample_repository, p_logs = [], paper = sample_paper, user = sample_user,
     sent = [], notified = [], attached = [], api_url = [], no_license_id = [], license_id = [],
     pub_date = [], headers = [], node_id = JNull, storage_url = []\<rparr>"

definition sample_protocol :: OSFProtocol where
  "sample_protocol =
     snd (OSFProtocol_init_deposit sample_paper sample_user (OSFProtocol_init sample_repository blank))"

definition ok :: "int \<Rightarrow> json option \<Rightarrow> response" where
  "ok code body = \<lparr>r_url = ''https://test-api.osf.io/'', status_code = code, r_text = ''{}'',
     r_json = body\<rparr>"

definition sample_responses :: "response list" where
  "sample_responses =
     [ok 201 (Some (JObject [(''data'', JObject [(''id'', JString ''abc12'')])])),
      ok 200 (Some (JObject [(''data'', JArray [JObject [(''links'', JObject
                [(''upload'', JString ''https://files.osf.io/abc12/osfstorage/'')])]])])),
      ok 201 (Some (JObject [(''data'', JObject [(''attributes'', JObject
                [(''path'', JString ''/5f1a'')])])])),
      ok 201 None, ok 201 None, ok 201 None,
      ok 200 None,
      ok 201 (Some (JObject [(''data'', JObject [(''id'', JString ''xyz9'')])])),
      ok 200 None]"

definition sample_env :: env where
  "sample_env = \<lparr>
     ugettext = (\<lambda>s. s),
     DEPOSIT_NOTIFICATION_CALLBACK = (\<lambda>p. None),
     add_oairecord = (\<lambda>pa r. \<lparr>oai_source = oai_source r, oai_identifier = oai_identifier r,
        oai_splash_url = oai_splash_url r, oai_pdf_url = oai_pdf_url r, about = pk pa\<rparr>),
     format_exc = (\<lambda>e. ''Traceback (most recent call last):''),
     requests = (\<lambda>earlier rq.
        if length earlier < length sample_responses then Inr (sample_responses ! length earlier)
        else Inl (PyException ''ConnectionError'' ''connection refused'')),
     open_file = (\<lambda>path. Inr ''%PDF-1.4''),
     json_dumps = (\<lambda>indent v. py_repr v)\<rparr>"

section \<open>More sample attempts\<close>

text \<open>
  A notification callback that raises, a server that refuses the first call, a server
  that cannot be reached, a repository with no token, a payload as the wrapper would
  build it with the URL of the paper view, and a result as a backend that fills in its
  URLs would return it.
\<close>

definition raising_callback_env :: env where
  "raising_callback_env = sample_env\<lparr>DEPOSIT_NOTIFICATION_CALLBACK :=
     (\<lambda>p. Some (PyException (builtin ''IOError'') ''notification service unreachable''))\<rparr>"

definition refusing_env :: env where
  "refusing_env = raising_callback_env\<lparr>requests := (\<lambda>earlier rq. Inr (ok 500 None))\<rparr>"

definition unreachable_env :: env where
  "unreachable_env = sample_env\<lparr>requests := (\<lambda>earlier rq.
     Inl (PyException (''<class '' @ quoted ''requests.exceptions.ConnectionError'' @ ''>'')
            ''connection refused''))\<rparr>"

definition keyless_protocol :: OSFProtocol where
  "keyless_protocol = sample_protocol\<lparr>repository := sample_repository\<lparr>api_key := None\<rparr>\<rparr>"

definition sample_payload :: payload where
  "sample_payload = \<lparr>p_name = ''Ada Lovelace'', p_repo = ''OSF sandbox'',
     p_paperurl = ''/paper/42/''\<rparr>"

definition sample_result :: DepositResult where
  "sample_result = \<lparr>identifier = Some ''abc12'', splash_url = Some ''https://test.osf.io/xyz9'',
     pdf_url = Some ''https://test.osf.io/xyz9/download'', logs = None, status = ''published'',
     message = None, oairecord = None, additional_info = []\<rparr>"

section \<open>What an attempt sends about the license\<close>

text \<open>
  The block the license claims describe, for a selected license, the "no license"
  identifier of the endpoint, a year and the authors: the year and the authors' full
  names when the selected license is the "no license" identifier, and empty otherwise.
\<close>

definition license_block :: "string \<Rightarrow> string \<Rightarrow> string \<Rightarrow> author list \<Rightarrow> json" where
  "license_block selected sentinel year holders =
     (if selected = sentinel
      then JObject [(''year'', JString year),
             (''copyright_holders'',
              JArray (map (\<lambda>a. JString (name_first a @ '' '' @ name_last a)) holders))]
      else JObject [])"

text \<open>
  A request carries a block under a key when it is a PATCH whose data is the
  serialisation of a document with that block at \<open>data.attributes.<key>\<close>.
\<close>

definition carries :: "env \<Rightarrow> string \<Rightarrow> json \<Rightarrow> request \<Rightarrow> bool" where
  "carries env key block rq =
     (rq_method rq = PATCH \<and>
      (\<exists>doc. rq_data rq = Some (json_dumps env None doc) \<and>
             at_path doc [''data'', ''attributes'', key] = Inr block))"

text \<open>The PATCH requests an instance has sent, in order.\<close>

definition patches :: "'a RepositoryProtocol_scheme \<Rightarrow> request list" where
  "patches self = filter (\<lambda>rq. rq_method rq = PATCH) (sent self)"

text \<open>
  What the license blocks depend on: the selected license, the "no license" identifier,
  the year, and the PATCH requests sent so far. A step is \<open>quiet\<close> when it leaves all
  four as they are, whether it returns or raises.
\<close>

definition license_view :: "OSFProtocol \<Rightarrow> string \<times> string \<times> string \<times> request list" where
  "license_view self = (license_id self, no_license_id self, pub_date self, patches self)"

definition quiet :: "(OSFProtocol, 'a) action \<Rightarrow> bool" where
  "quiet m = (\<forall>self. license_view (snd (m self)) = license_view self)"

text \<open>
  \<open>ensures P m Q E\<close>: from an instance where \<open>P\<close> holds, \<open>m\<close> returns with \<open>Q\<close> or raises
  with \<open>E\<close>.
\<close>

definition ensures ::
  "(OSFProtocol \<Rightarrow> bool) \<Rightarrow> (OSFProtocol, 'a) action \<Rightarrow> (OSFProtocol \<Rightarrow> bool) \<Rightarrow>
   (OSFProtocol \<Rightarrow> bool) \<Rightarrow> bool" where
  "ensures P m Q E =
     (\<forall>self. P self \<longrightarrow> (case m self of (Inl e, self') \<Rightarrow> E self' | (Inr x, self') \<Rightarrow> Q self'))"

text \<open>
  How far an attempt has come with the license: the selected license, the identifier
  and the year are fixed, and after the PATCH requests sent before the attempt come the
  first \<open>k\<close> of the node update and the preprint update, each with the block under its
  key.
\<close>

definition staged ::
  "env \<Rightarrow> json \<Rightarrow> string \<times> string \<times> string \<Rightarrow> request list \<Rightarrow> nat \<Rightarrow> OSFProtocol \<Rightarrow> bool" where
  "staged env block fixed before k self =
     ((license_id self, no_license_id self, pub_date self) = fixed \<and>
      (\<exists>new. patches self = before @ new \<and>
         list_all2 (\<lambda>key rq. carries env key block rq)
           (take k [''node_license'', ''license_record'']) new))"

text \<open>
  The block of an attempt: the license selected in the form against the "no license"
  identifier of the instance, with the year \<open>submit_deposit\<close> takes from the paper's date
  and the authors of the paper.
\<close>

definition attempt_block :: "form \<Rightarrow> OSFProtocol \<Rightarrow> json" where
  "attempt_block form self =
     license_block (cd_license form) (no_license_id self)
       (take (length (date (paper self)) - 6) (date (paper self))) (authors (paper self))"

section \<open>Properties of DepositResult and of the wrapper\<close>

lemma failed_is_choice: "''failed'' \<in> set (map fst DEPOSIT_STATUS_CHOICES)"
  by (simp add: DEPOSIT_STATUS_CHOICES_def)

lemma published_is_choice: "''published'' \<in> set (map fst DEPOSIT_STATUS_CHOICES)"
  by (simp add: DEPOSIT_STATUS_CHOICES_def)

lemma failed_result:
  "DepositResult_init DEPOSIT_STATUS_CHOICES None None None l ''failed'' m =
     Inr \<lparr>identifier = None, splash_url = None, pdf_url = None, logs = l, status = ''failed'',
          message = m, oairecord = None, additional_info = []\<rparr>"
  using failed_is_choice by (simp add: DepositResult_init_def)

lemma default_result:
  "DepositResult_init DEPOSIT_STATUS_CHOICES None None None None ''published'' None =
     Inr \<lparr>identifier = None, splash_url = None, pdf_url = None, logs = None,
          status = ''published'', message = None, oairecord = None, additional_info = []\<rparr>"
  using published_is_choice by (simp add: DepositResult_init_def)

text \<open>
  C7. Construction raises exactly when the status is not the first component of an entry
  of the enumeration, and a result that is constructed carries the status it was given,
  a member of the enumeration.
\<close>

theorem DepositResult_init_status:
  "((\<exists>e. DepositResult_init choices i s p l st m = Inl e) \<longleftrightarrow> st \<notin> fst ` set choices) \<and>
   (\<forall>r. DepositResult_init choices i s p l st m = Inr r \<longrightarrow>
        status r = st \<and> st \<in> fst ` set choices)"
  by (auto simp: DepositResult_init_def)

theorem DepositResult_init_status_witness:
  "(\<exists>e. DepositResult_init DEPOSIT_STATUS_CHOICES None None None None ''bogus'' None = Inl e) \<and>
   (\<exists>r. DepositResult_init DEPOSIT_STATUS_CHOICES None None None None ''published'' None = Inr r \<and>
        status r = ''published'' \<and> ''published'' \<in> fst ` set DEPOSIT_STATUS_CHOICES)"
proof -
  have a: "''bogus'' \<notin> fst ` set DEPOSIT_STATUS_CHOICES"
    by (simp add: DEPOSIT_STATUS_CHOICES_def)
  obtain r where r:
    "DepositResult_init DEPOSIT_STATUS_CHOICES None None None None ''published'' None = Inr r"
    using default_result by blast
  from a r show ?thesis
    using DepositResult_init_status [of DEPOSIT_STATUS_CHOICES None None None None "''bogus''" None]
      DepositResult_init_status [of DEPOSIT_STATUS_CHOICES None None None None "''published''" None]
    by blast
qed

subsection \<open>The wrapper\<close>

lemma notification_payload_raises:
  "notification_payload self =
     Inl (PyException (builtin ''NameError'')
            (''global name '' @ quoted ''reverse'' @ '' is not defined''))"
  by (simp add: notification_payload_def reverse_def Let_def)

lemma wrapper_raises:
  "submit_deposit_wrapper env submit self =
     (Inl (PyException (builtin ''NameError'')
             (''global name '' @ quoted ''reverse'' @ '' is not defined'')), self)"
  by (simp add: submit_deposit_wrapper_def notification_payload_raises)

lemma wrapper_try_raises:
  "submit self = (Inl e, self1) \<Longrightarrow> wrapper_try env submit p self = (Inl e, self1)"
  by (simp add: wrapper_try_def)

lemma try_statement_DepositError_escapes:
  assumes "wrapper_try env submit p self = (Inl (DepositError msg), self1)"
    and "DEPOSIT_NOTIFICATION_CALLBACK env (failure_payload p msg) = Some e"
  shows "try_statement env submit p self =
     (Inl e,
      self1\<lparr>p_logs := p_logs self1 @ ''Message: '' @ msg @ nl,
             notified := notified self1 @ [failure_payload p msg]\<rparr>)"
  using assms by (simp add: try_statement_def notify_def log_def)

lemma sample_callback_returns: "DEPOSIT_NOTIFICATION_CALLBACK sample_env p = None"
  by (simp add: sample_env_def)

lemma raising_callback_raises:
  "DEPOSIT_NOTIFICATION_CALLBACK raising_callback_env p =
     Some (PyException (builtin ''IOError'') ''notification service unreachable'')"
  by (simp add: raising_callback_env_def)

lemma keyless_submit_raises:
  "submit_deposit env pdf form dry_run keyless_protocol =
     (Inl (DepositError (ugettext env ''No OSF token provided.'')), keyless_protocol)"
  by (simp add: submit_deposit_def keyless_protocol_def sample_protocol_def
      OSFProtocol_init_deposit_def init_deposit_def OSFProtocol_init_def sample_repository_def
      raise_def Let_def)

lemma sample_protocol_fresh:
  "p_logs sample_protocol = []" "notified sample_protocol = []" "attached sample_protocol = []"
  "p_logs keyless_protocol = []"
  by (simp_all add: keyless_protocol_def sample_protocol_def OSFProtocol_init_deposit_def
      init_deposit_def OSFProtocol_init_def blank_def Let_def)

lemma unreachable_run:
  "(let run = submit_deposit unreachable_env ''/tmp/article.pdf'' sample_form False sample_protocol
    in fst run =
         Inl (PyException (''<class '' @ quoted ''requests.exceptions.ConnectionError'' @ ''>'')
                ''connection refused'') \<and>
       notified (snd run) = [])"
  by code_simp

text \<open>
  C2 fails on the code. Whatever \<open>submit_deposit\<close> and the notification callback do, the
  wrapper lets an exception out: the \<open>NameError\<close> of line 155, raised before the \<open>try\<close>,
  with the instance as it was. The \<open>try\<close> statement has a second way out: when the
  repository has no token, \<open>submit_deposit\<close> raises a \<open>DepositError\<close>, and a callback that
  raises inside the handler of that error is not caught.
\<close>

theorem wrapper_lets_exception_out:
  "submit_deposit_wrapper env submit self =
     (Inl (PyException (builtin ''NameError'')
             (''global name '' @ quoted ''reverse'' @ '' is not defined'')), self) \<and>
   fst (try_statement raising_callback_env
          (submit_deposit raising_callback_env ''/tmp/article.pdf'' sample_form False)
          sample_payload keyless_protocol) =
     Inl (PyException (builtin ''IOError'') ''notification service unreachable'')"
proof -
  have "wrapper_try raising_callback_env
          (submit_deposit raising_callback_env ''/tmp/article.pdf'' sample_form False)
          sample_payload keyless_protocol =
        (Inl (DepositError (ugettext raising_callback_env ''No OSF token provided.'')),
         keyless_protocol)"
    by (simp add: wrapper_try_raises keyless_submit_raises)
  then have "fst (try_statement raising_callback_env
          (submit_deposit raising_callback_env ''/tmp/article.pdf'' sample_form False)
          sample_payload keyless_protocol) =
     Inl (PyException (builtin ''IOError'') ''notification service unreachable'')"
    by (simp add: try_statement_DepositError_escapes raising_callback_raises)
  then show ?thesis by (simp add: wrapper_raises)
qed

text \<open>
  C3 fails on the code. The repository has no token, so \<open>submit_deposit\<close> raises
  \<open>DepositError\<close> with the message \<open>No OSF token provided.\<close>; the wrapper returns no
  result: it raises the \<open>NameError\<close> of line 155 and leaves the log empty. With a payload
  at hand and a server that refuses the first call, the \<open>try\<close> statement returns no
  result either when the callback raises in the handler.
\<close>

lemma refused_submit_raises:
  "fst (submit_deposit refusing_env ''/tmp/article.pdf'' sample_form False sample_protocol) =
     Inl (DepositError ''Unable to create a project on OSF.'')"
  by code_simp

theorem wrapper_returns_no_failed_result:
  "submit_deposit sample_env ''/tmp/article.pdf'' sample_form False keyless_protocol =
     (Inl (DepositError ''No OSF token provided.''), keyless_protocol) \<and>
   submit_deposit_wrapper sample_env
     (submit_deposit sample_env ''/tmp/article.pdf'' sample_form False) keyless_protocol =
     (Inl (PyException (builtin ''NameError'')
             (''global name '' @ quoted ''reverse'' @ '' is not defined'')), keyless_protocol) \<and>
   p_logs keyless_protocol = [] \<and>
   fst (try_statement refusing_env
          (submit_deposit refusing_env ''/tmp/article.pdf'' sample_form False)
          sample_payload sample_protocol) =
     Inl (PyException (builtin ''IOError'') ''notification service unreachable'')"
proof -
  have a: "submit_deposit sample_env ''/tmp/article.pdf'' sample_form False keyless_protocol =
     (Inl (DepositError ''No OSF token provided.''), keyless_protocol)"
    by (simp add: keyless_submit_raises sample_env_def)
  obtain self1 where "submit_deposit refusing_env ''/tmp/article.pdf'' sample_form False
      sample_protocol = (Inl (DepositError ''Unable to create a project on OSF.''), self1)"
    using refused_submit_raises by (metis prod.collapse)
  then have "wrapper_try refusing_env
          (submit_deposit refusing_env ''/tmp/article.pdf'' sample_form False)
          sample_payload sample_protocol =
        (Inl (DepositError ''Unable to create a project on OSF.''), self1)"
    by (rule wrapper_try_raises)
  moreover have "DEPOSIT_NOTIFICATION_CALLBACK refusing_env p =
      Some (PyException (builtin ''IOError'') ''notification service unreachable'')" for p
    by (simp add: refusing_env_def raising_callback_env_def)
  ultimately have b: "fst (try_statement refusing_env
          (submit_deposit refusing_env ''/tmp/article.pdf'' sample_form False)
          sample_payload sample_protocol) =
     Inl (PyException (builtin ''IOError'') ''notification service unreachable'')"
    by (simp add: try_statement_DepositError_escapes)
  show ?thesis
    by (intro conjI a wrapper_raises sample_protocol_fresh b)
qed

text \<open>
  C4 fails on the code. The server cannot be reached, so \<open>submit_deposit\<close> raises a
  \<open>ConnectionError\<close>, which is not a \<open>DepositError\<close>; the wrapper returns no result: it
  raises the \<open>NameError\<close> of line 155, and the log stays empty, without the type and the
  text of the exception.
\<close>

theorem wrapper_unexpected_exception_no_result:
  "fst (submit_deposit unreachable_env ''/tmp/article.pdf'' sample_form False sample_protocol) =
     Inl (PyException (''<class '' @ quoted ''requests.exceptions.ConnectionError'' @ ''>'')
            ''connection refused'') \<and>
   submit_deposit_wrapper unreachable_env
     (submit_deposit unreachable_env ''/tmp/article.pdf'' sample_form False) sample_protocol =
     (Inl (PyException (builtin ''NameError'')
             (''global name '' @ quoted ''reverse'' @ '' is not defined'')), sample_protocol) \<and>
   p_logs sample_protocol = []"
proof -
  have a: "fst (submit_deposit unreachable_env ''/tmp/article.pdf'' sample_form False
      sample_protocol) =
     Inl (PyException (''<class '' @ quoted ''requests.exceptions.ConnectionError'' @ ''>'')
            ''connection refused'')"
    using unreachable_run by (simp add: Let_def)
  show ?thesis
    by (intro conjI a wrapper_raises sample_protocol_fresh)
qed

text \<open>
  C5 fails on the code. When the body of the \<open>try\<close> is left by an exception that is not
  a \<open>DepositError\<close>, the \<open>try\<close> statement does not call the notification callback,
  whatever the payload: the payloads notified are those notified when \<open>submit_deposit\<close>
  raised. The wrapper as a whole does not call it either: it raises before the \<open>try\<close>,
  and the payloads notified are those notified before the call.
\<close>

theorem wrapper_unexpected_exception_not_notified:
  assumes "submit self = (Inl e, self1)"
    and "e \<noteq> DepositError_no_args" and "\<forall>msg. e \<noteq> DepositError msg"
  shows "notified (snd (try_statement env submit p self)) = notified self1 \<and>
         notified (snd (submit_deposit_wrapper env submit self)) = notified self"
proof -
  have "wrapper_try env submit p self = (Inl e, self1)"
    using assms(1) by (rule wrapper_try_raises)
  with assms(2,3) have "notified (snd (try_statement env submit p self)) = notified self1"
    by (cases e) (simp_all add: try_statement_def log_def Let_def)
  then show ?thesis by (simp add: wrapper_raises)
qed

theorem wrapper_unexpected_exception_not_notified_witness:
  "notified (snd (try_statement unreachable_env
             (submit_deposit unreachable_env ''/tmp/article.pdf'' sample_form False)
             sample_payload sample_protocol)) = [] \<and>
   notified (snd (submit_deposit_wrapper unreachable_env
             (submit_deposit unreachable_env ''/tmp/article.pdf'' sample_form False)
             sample_protocol)) = []"
proof -
  obtain out self1 where run: "submit_deposit unreachable_env ''/tmp/article.pdf'' sample_form
      False sample_protocol = (out, self1)"
    by (cases "submit_deposit unreachable_env ''/tmp/article.pdf'' sample_form False
      sample_protocol")
  with unreachable_run have out: "out =
      Inl (PyException (''<class '' @ quoted ''requests.exceptions.ConnectionError'' @ ''>'')
            ''connection refused'')" and quiet: "notified self1 = []"
    by (simp_all add: Let_def)
  from run out have raised: "submit_deposit unreachable_env ''/tmp/article.pdf'' sample_form
      False sample_protocol =
      (Inl (PyException (''<class '' @ quoted ''requests.exceptions.ConnectionError'' @ ''>'')
            ''connection refused''), self1)"
    by simp
  from wrapper_unexpected_exception_not_notified
    [where submit = "submit_deposit unreachable_env ''/tmp/article.pdf'' sample_form False"
       and self = sample_protocol and env = unreachable_env and p = sample_payload, OF raised]
  show ?thesis by (simp add: quiet sample_protocol_fresh)
qed

text \<open>
  C6 fails on the code. A \<open>submit_deposit\<close> that returns a result with a splash URL has
  no record attached to the paper: the wrapper raises the \<open>NameError\<close> of line 155 before
  it calls \<open>submit_deposit\<close>, and asks the paper to attach nothing.
\<close>

theorem wrapper_attaches_no_record:
  "truthy (splash_url sample_result) \<and>
   submit_deposit_wrapper sample_env (return sample_result) sample_protocol =
     (Inl (PyException (builtin ''NameError'')
             (''global name '' @ quoted ''reverse'' @ '' is not defined'')), sample_protocol) \<and>
   attached sample_protocol = []"
proof -
  have a: "truthy (splash_url sample_result)"
    by (simp add: sample_result_def)
  show ?thesis
    by (intro conjI a wrapper_raises sample_protocol_fresh)
qed

text \<open>
  C10. \<open>OSFProtocol.init_deposit\<close> returns \<open>True\<close> for every paper and every user, whatever
  the instance has recorded before: no paper is refused.
\<close>

theorem OSFProtocol_init_deposit_accepts:
  "fst (OSFProtocol_init_deposit paper' user' self) = True"
  by (simp add: OSFProtocol_init_deposit_def init_deposit_def)

section \<open>Tag normalisation\<close>

lemma lstrip_dropWhile: "lstrip s = dropWhile isspace s"
  by (induction s) simp_all

lemma split_not_Nil: "split sep s \<noteq> []"
  by (induction s) (simp_all split: list.splits)

lemma join_split: "join [sep] (split sep s) = s"
proof (induction s)
  case Nil
  show ?case by simp
next
  case (Cons c cs)
  obtain piece pieces where sp: "split sep cs = piece # pieces"
    using split_not_Nil [of sep cs] by (cases "split sep cs") auto
  with Cons show ?case
    by (cases pieces) auto
qed

lemma split_no_separator: "p \<in> set (split sep s) \<Longrightarrow> sep \<notin> set p"
proof (induction s arbitrary: p)
  case Nil
  then show ?case by simp
next
  case (Cons c cs)
  then show ?case
    by (cases "split sep cs") (auto split: if_splits)
qed

lemma rev_dropWhile_decomposition:
  "xs = rev (dropWhile P (rev xs)) @ rev (takeWhile P (rev xs))"
proof -
  have "rev (takeWhile P (rev xs) @ dropWhile P (rev xs)) =
        rev (dropWhile P (rev xs)) @ rev (takeWhile P (rev xs))"
    by (rule rev_append)
  then show ?thesis by simp
qed

lemma strip_eq: "strip s = rev (dropWhile isspace (rev (dropWhile isspace s)))"
  by (simp add: strip_def rstrip_def lstrip_dropWhile)

lemma lstrip_decomposition:
  "dropWhile isspace s = strip s @ rev (takeWhile isspace (rev (dropWhile isspace s)))"
  unfolding strip_eq by (rule rev_dropWhile_decomposition)

lemma strip_decomposition:
  "\<exists>a b. s = a @ strip s @ b \<and> (\<forall>c\<in>set a. isspace c) \<and> (\<forall>c\<in>set b. isspace c)"
proof -
  let ?a = "takeWhile isspace s"
  let ?b = "rev (takeWhile isspace (rev (dropWhile isspace s)))"
  have "s = ?a @ dropWhile isspace s" by simp
  also have "dropWhile isspace s = strip s @ ?b" by (rule lstrip_decomposition)
  finally have "s = ?a @ strip s @ ?b" .
  moreover have "\<forall>c\<in>set ?a. isspace c"
    by (auto dest: set_takeWhileD)
  moreover have "\<forall>c\<in>set ?b. isspace c"
    by (auto dest: set_takeWhileD)
  ultimately show ?thesis by blast
qed

lemma strip_ends:
  assumes "strip s \<noteq> []"
  shows "\<not> isspace (hd (strip s)) \<and> \<not> isspace (last (strip s))"
proof -
  let ?d = "dropWhile isspace s"
  let ?e = "dropWhile isspace (rev ?d)"
  from assms have e: "?e \<noteq> []" by (simp add: strip_eq)
  then have "\<not> isspace (hd ?e)" by (rule hd_dropWhile)
  with e have l: "\<not> isspace (last (strip s))"
    by (simp add: strip_eq last_rev)
  have d: "?d = strip s @ rev (takeWhile isspace (rev ?d))"
    by (rule lstrip_decomposition)
  from assms have "hd (strip s @ rev (takeWhile isspace (rev ?d))) = hd (strip s)"
    by (rule hd_append2)
  with d have h: "hd ?d = hd (strip s)" by simp
  from assms have "strip s @ rev (takeWhile isspace (rev ?d)) \<noteq> []" by simp
  then have "?d \<noteq> []" by (subst d)
  then have "\<not> isspace (hd ?d)" by (rule hd_dropWhile)
  with h l show ?thesis by simp
qed

lemma sample_tags: "filter (\<lambda>item. item \<noteq> []) (map strip (split CHR '','' ''a, b ,, c'')) =
    [''a'', ''b'', ''c'']"
  by (simp add: strip_def rstrip_def isspace_def)

text \<open>
  C9. \<open>create_tags\<close> cuts the text at its commas: the pieces, joined by commas, give the
  text back and hold no comma. It strips each piece: the piece is its stripped text
  between two runs of whitespace. It keeps the stripped pieces that are not empty, so a
  tag is not empty and neither begins nor ends with whitespace. On \<open>a, b ,, c\<close> the
  tags are \<open>a\<close>, \<open>b\<close>, \<open>c\<close>.
\<close>

theorem create_tags_normalises:
  "create_tags form = filter (\<lambda>t. t \<noteq> []) (map strip (split CHR '','' (cd_tags form))) \<and>
   join '','' (split CHR '','' (cd_tags form)) = cd_tags form \<and>
   (\<forall>p\<in>set (split CHR '','' (cd_tags form)).
      CHR '','' \<notin> set p \<and>
      (\<exists>a b. p = a @ strip p @ b \<and> (\<forall>c\<in>set a. isspace c) \<and> (\<forall>c\<in>set b. isspace c))) \<and>
   (\<forall>t\<in>set (create_tags form). t \<noteq> [] \<and> \<not> isspace (hd t) \<and> \<not> isspace (last t)) \<and>
   (cd_tags form = ''a, b ,, c'' \<longrightarrow> create_tags form = [''a'', ''b'', ''c''])"
proof -
  have a: "create_tags form =
      filter (\<lambda>t. t \<noteq> []) (map strip (split CHR '','' (cd_tags form)))"
    by (simp add: create_tags_def)
  have b: "join '','' (split CHR '','' (cd_tags form)) = cd_tags form"
    by (rule join_split)
  have c: "\<forall>p\<in>set (split CHR '','' (cd_tags form)).
      CHR '','' \<notin> set p \<and>
      (\<exists>a b. p = a @ strip p @ b \<and> (\<forall>c\<in>set a. isspace c) \<and> (\<forall>c\<in>set b. isspace c))"
    using split_no_separator strip_decomposition by blast
  have d: "\<forall>t\<in>set (create_tags form). t \<noteq> [] \<and> \<not> isspace (hd t) \<and> \<not> isspace (last t)"
  proof
    fix t
    assume "t \<in> set (create_tags form)"
    with a obtain p where "t = strip p" and "strip p \<noteq> []" by auto
    then show "t \<noteq> [] \<and> \<not> isspace (hd t) \<and> \<not> isspace (last t)"
      using strip_ends [of p] by simp
  qed
  have e: "cd_tags form = ''a, b ,, c'' \<longrightarrow> create_tags form = [''a'', ''b'', ''c'']"
    using a sample_tags by simp
  show ?thesis by (intro conjI a b c d e)
qed

theorem create_tags_normalises_witness:
  "cd_tags sample_form = ''a, b ,, c'' \<and> create_tags sample_form = [''a'', ''b'', ''c''] \<and>
   split CHR '','' (cd_tags sample_form) = [''a'', '' b '', [], '' c''] \<and>
   join '','' [''a'', '' b '', [], '' c''] = ''a, b ,, c''"
proof -
  have t: "cd_tags sample_form = ''a, b ,, c''"
    by (simp add: sample_form_def)
  have s: "split CHR '','' ''a, b ,, c'' = [''a'', '' b '', [], '' c'']"
    by simp
  have "cd_tags sample_form = ''a, b ,, c'' \<longrightarrow> create_tags sample_form = [''a'', ''b'', ''c'']"
    by (rule create_tags_normalises
        [of sample_form, THEN conjunct2, THEN conjunct2, THEN conjunct2, THEN conjunct2])
  with t have c: "create_tags sample_form = [''a'', ''b'', ''c'']" by (rule rev_mp)
  have j: "join '','' [''a'', '' b '', [], '' c''] = ''a, b ,, c''" by simp
  from t s have s': "split CHR '','' (cd_tags sample_form) = [''a'', '' b '', [], '' c'']"
    by (simp only:)
  show ?thesis by (intro conjI t c s' j)
qed

section \<open>Properties of the OSF backend\<close>

text \<open>
  C1 fails on the code. Whenever \<open>submit_deposit\<close> returns a result, the result has no
  identifier, no splash URL and no PDF URL: it is the result built with the defaults
  before the first call, and the lines that would fill it in are commented out.
\<close>

theorem submit_deposit_result_unset:
  assumes "submit_deposit env pdf form dry_run self = (Inr r, self')"
  shows "identifier r = None \<and> splash_url r = None \<and> pdf_url r = None"
proof -
  from assms have "r = \<lparr>identifier = None, splash_url = None, pdf_url = None, logs = None,
      status = ''published'', message = None, oairecord = None, additional_info = []\<rparr>"
    by (auto simp: submit_deposit_def bind_def lift_def return_def raise_def default_result
        Let_def split: if_splits option.splits sum.splits prod.splits)
  then show ?thesis by simp
qed

lemma sample_run:
  "(let run = submit_deposit sample_env ''/tmp/article.pdf'' sample_form False sample_protocol
    in fst run = Inr \<lparr>identifier = None, splash_url = None, pdf_url = None, logs = None,
         status = ''published'', message = None, oairecord = None, additional_info = []\<rparr> \<and>
       map rq_method (sent (snd run)) = [POST, GET, PUT, POST, POST, POST, PATCH, POST, PATCH] \<and>
       map status_code sample_responses = [201, 200, 201, 201, 201, 201, 200, 201, 200] \<and>
       drop (length (p_logs (snd run)) - 85) (p_logs (snd run)) =
         ''https://test.osf.io/abc12'' @ nl @ ''https://test.osf.io/xyz9'' @ nl @
         ''https://test.osf.io/xyz9/download'' @ nl)"
  by code_simp

theorem submit_deposit_result_unset_witness:
  "\<exists>r self'. submit_deposit sample_env ''/tmp/article.pdf'' sample_form False sample_protocol =
       (Inr r, self') \<and>
     map rq_method (sent self') = [POST, GET, PUT, POST, POST, POST, PATCH, POST, PATCH] \<and>
     map status_code sample_responses = [201, 200, 201, 201, 201, 201, 200, 201, 200] \<and>
     drop (length (p_logs self') - 85) (p_logs self') =
       ''https://test.osf.io/abc12'' @ nl @ ''https://test.osf.io/xyz9'' @ nl @
       ''https://test.osf.io/xyz9/download'' @ nl \<and>
     identifier r = None \<and> splash_url r = None \<and> pdf_url r = None"
proof -
  obtain out self' where run:
    "submit_deposit sample_env ''/tmp/article.pdf'' sample_form False sample_protocol = (out, self')"
    by (cases "submit_deposit sample_env ''/tmp/article.pdf'' sample_form False sample_protocol")
  with sample_run obtain r where r: "out = Inr r"
    and facts: "map rq_method (sent self') = [POST, GET, PUT, POST, POST, POST, PATCH, POST, PATCH]"
      "map status_code sample_responses = [201, 200, 201, 201, 201, 201, 200, 201, 200]"
      "drop (length (p_logs self') - 85) (p_logs self') =
       ''https://test.osf.io/abc12'' @ nl @ ''https://test.osf.io/xyz9'' @ nl @
       ''https://test.osf.io/xyz9/download'' @ nl"
    by (simp add: Let_def)
  from run r have returned: "submit_deposit sample_env ''/tmp/article.pdf'' sample_form False
      sample_protocol = (Inr r, self')" by simp
  note unset = submit_deposit_result_unset [OF returned]
  show ?thesis
    by (rule exI [where x = r], rule exI [where x = self'])
      (intro conjI returned facts unset [THEN conjunct1] unset [THEN conjunct2, THEN conjunct1]
        unset [THEN conjunct2, THEN conjunct2])
qed

subsection \<open>Steps that leave the license alone\<close>

lemma quietD: "quiet m \<Longrightarrow> license_view (snd (m self)) = license_view self"
  by (simp add: quiet_def)

lemma quiet_bind:
  assumes "quiet m" and "\<And>x. quiet (f x)"
  shows "quiet (bind m f)"
proof -
  have "license_view (snd (bind m f self)) = license_view self" for self
  proof (cases "m self")
    case (Pair out self1)
    from assms(1) have m: "license_view (snd (m self)) = license_view self"
      by (rule quietD)
    show ?thesis
    proof (cases out)
      case (Inl e)
      with Pair m show ?thesis by (simp add: bind_def)
    next
      case (Inr x)
      from assms(2) have "license_view (snd (f x self1)) = license_view self1"
        by (rule quietD)
      with Pair Inr m show ?thesis by (simp add: bind_def)
    qed
  qed
  then show ?thesis by (simp add: quiet_def)
qed

lemma quiet_lift: "quiet (lift v)"
  by (simp add: quiet_def lift_def)

lemma quiet_get: "quiet get"
  by (simp add: quiet_def get_def)

lemma quiet_return: "quiet (return x)"
  by (simp add: quiet_def return_def)

lemma quiet_do_log: "quiet (do_log line)"
  by (simp add: quiet_def do_log_def log_def license_view_def patches_def)

lemma quiet_log_request: "quiet (log_request r code msg)"
  by (simp add: quiet_def log_request_def log_def license_view_def patches_def Let_def)

lemma quiet_send: "rq_method rq \<noteq> PATCH \<Longrightarrow> quiet (send env rq)"
  by (simp add: quiet_def send_def license_view_def patches_def)

lemmas quiet_steps = quiet_bind quiet_lift quiet_get quiet_return quiet_do_log
  quiet_log_request quiet_send

lemma quiet_create_node: "quiet (create_node env abstract' tags authors')"
proof -
  have set_id: "quiet (\<lambda>self'::OSFProtocol. (Inr (), self'\<lparr>node_id := i\<rparr>))" for i
    by (simp add: quiet_def license_view_def patches_def)
  have "license_view (snd (create_node env abstract' tags authors' self)) = license_view self"
    for self
    unfolding create_node_def
    by (rule quietD) (intro quiet_steps set_id, simp)
  then show ?thesis by (simp add: quiet_def)
qed

lemma quiet_get_newnode_osf_storage: "quiet (get_newnode_osf_storage env node_id')"
proof -
  have "license_view (snd (get_newnode_osf_storage env node_id' self)) = license_view self"
    for self
  proof -
    let ?self1 = "self\<lparr>storage_url :=
                   api_url self @ ''v2/nodes/'' @ py_unicode (node_id self) @ ''/files/''\<rparr>"
    have "license_view (snd (get_newnode_osf_storage env node_id' self)) = license_view ?self1"
      unfolding get_newnode_osf_storage_def Let_def
      by (rule quietD) (intro quiet_steps, simp)
    then show ?thesis by (simp add: license_view_def patches_def)
  qed
  then show ?thesis by (simp add: quiet_def)
qed

lemma quiet_add_contributors_loop: "quiet (add_contributors_loop env contrib_url authors')"
proof (induction authors')
  case Nil
  show ?case by (simp add: quiet_return)
next
  case (Cons author authors')
  have "license_view (snd (add_contributors_loop env contrib_url (author # authors') self)) =
        license_view self" for self
    unfolding add_contributors_loop.simps
    by (rule quietD) (intro quiet_steps Cons.IH, simp)
  then show ?case by (simp add: quiet_def)
qed

lemma quiet_add_contributors: "quiet (add_contributors env authors')"
proof -
  have "license_view (snd (add_contributors env authors' self)) = license_view self" for self
    unfolding add_contributors_def
    by (rule quietD) (intro quiet_steps quiet_add_contributors_loop)
  then show ?thesis by (simp add: quiet_def)
qed

lemma quiet_create_preprint: "quiet (create_preprint env pf_path records')"
proof -
  have "license_view (snd (create_preprint env pf_path records' self)) = license_view self"
    for self
    unfolding create_preprint_def
    by (rule quietD) (intro quiet_steps, simp)
  then show ?thesis by (simp add: quiet_def)
qed

subsection \<open>The two updates\<close>

lemma ensures_bind:
  assumes "ensures P m Q E" and "\<And>x. ensures Q (f x) R E"
  shows "ensures P (bind m f) R E"
  unfolding ensures_def
proof (intro allI impI)
  fix self
  assume P: "P self"
  show "case bind m f self of (Inl e, self') \<Rightarrow> E self' | (Inr x, self') \<Rightarrow> R self'"
  proof (cases "m self")
    case (Pair out self1)
    show ?thesis
    proof (cases out)
      case (Inl e)
      with Pair P assms(1) show ?thesis by (auto simp: ensures_def bind_def)
    next
      case (Inr x)
      with Pair P assms(1) have "Q self1" by (auto simp: ensures_def)
      with assms(2) [of x] have
        "case f x self1 of (Inl e, self') \<Rightarrow> E self' | (Inr x, self') \<Rightarrow> R self'"
        by (simp add: ensures_def)
      with Pair Inr show ?thesis by (simp add: bind_def)
    qed
  qed
qed

lemma staged_view:
  assumes "license_view self' = license_view self"
  shows "staged env block fixed before k self' = staged env block fixed before k self"
proof -
  from assms have "license_id self' = license_id self" "no_license_id self' = no_license_id self"
    "pub_date self' = pub_date self" "patches self' = patches self"
    by (simp_all add: license_view_def)
  then show ?thesis unfolding staged_def by (simp only:)
qed

lemma ensures_quiet:
  assumes "quiet m"
  shows "ensures (staged env block fixed before k) m (staged env block fixed before k)
           (\<lambda>self. \<exists>j. staged env block fixed before j self)"
  unfolding ensures_def
proof (intro allI impI)
  fix self
  assume st: "staged env block fixed before k self"
  from assms have "license_view (snd (m self)) = license_view self" by (rule quietD)
  then have "staged env block fixed before k (snd (m self)) = staged env block fixed before k self"
    by (rule staged_view)
  with st have "staged env block fixed before k (snd (m self))"
    by simp
  then show "case m self of (Inl e, self') \<Rightarrow> \<exists>j. staged env block fixed before j self'
      | (Inr x, self') \<Rightarrow> staged env block fixed before k self'"
    by (cases "m self") (auto split: sum.splits)
qed

lemma node_license_block:
  "at_path (license_structure self authors') [''data'', ''attributes'', ''node_license''] =
     Inr (license_block (license_id self) (no_license_id self) (pub_date self) authors')"
  by (simp add: license_structure_def license_block_def translate_author_def Let_def)

lemma license_record_block:
  "at_path (updated_preprint_struc self authors' preprint_id)
       [''data'', ''attributes'', ''license_record''] =
     Inr (license_block (license_id self) (no_license_id self) (pub_date self) authors')"
  by (simp add: updated_preprint_struc_def license_block_def translate_author_def Let_def)

lemma create_license_effect:
  assumes "create_license env authors' self = (out, self')"
  shows "license_id self' = license_id self \<and> no_license_id self' = no_license_id self \<and>
         pub_date self' = pub_date self \<and>
         ((\<exists>e. out = Inl e) \<and> patches self' = patches self \<or>
          (\<exists>rq. patches self' = patches self @ [rq] \<and> rq_method rq = PATCH \<and>
                rq_data rq = Some (json_dumps env None (license_structure self authors'))))"
proof (cases "node_id self")
  case (JString n)
  with assms show ?thesis
    by (auto simp: create_license_def bind_def lift_def send_def log_request_def do_log_def
        log_def patches_def Let_def split: sum.splits prod.splits if_splits)
qed (use assms in \<open>auto simp: create_license_def bind_def lift_def\<close>)

lemma update_preprint_license_effect:
  assumes "update_preprint_license env authors' preprint_id self = (out, self')"
  shows "license_id self' = license_id self \<and> no_license_id self' = no_license_id self \<and>
         pub_date self' = pub_date self \<and>
         (\<exists>rq. patches self' = patches self @ [rq] \<and> rq_method rq = PATCH \<and>
               rq_data rq = Some (json_dumps env None
                                    (updated_preprint_struc self authors' preprint_id)))"
  using assms
  by (auto simp: update_preprint_license_def bind_def send_def log_request_def do_log_def
      log_def patches_def Let_def split: sum.splits prod.splits if_splits)

lemma ensures_create_license:
  "ensures (staged env (license_block l n d authors') (l, n, d) before 0)
     (create_license env authors')
     (staged env (license_block l n d authors') (l, n, d) before 1)
     (\<lambda>self. \<exists>j. staged env (license_block l n d authors') (l, n, d) before j self)"
  unfolding ensures_def
proof (intro allI impI)
  fix self
  assume st: "staged env (license_block l n d authors') (l, n, d) before 0 self"
  then have fixed: "license_id self = l" "no_license_id self = n" "pub_date self = d"
    and before: "patches self = before"
    by (simp_all add: staged_def)
  obtain out self' where run: "create_license env authors' self = (out, self')"
    by (cases "create_license env authors' self")
  note eff = create_license_effect [OF run]
  from eff consider (raised) e where "out = Inl e" "patches self' = patches self"
    | (sent) rq where "patches self' = patches self @ [rq]" "rq_method rq = PATCH"
        "rq_data rq = Some (json_dumps env None (license_structure self authors'))"
    by blast
  then have "case out of Inl e \<Rightarrow> \<exists>j. staged env (license_block l n d authors') (l, n, d) before j self'
      | Inr x \<Rightarrow> staged env (license_block l n d authors') (l, n, d) before 1 self'"
  proof cases
    case raised
    with eff fixed before have "staged env (license_block l n d authors') (l, n, d) before 0 self'"
      by (simp add: staged_def)
    with raised show ?thesis by auto
  next
    case sent
    have "carries env ''node_license'' (license_block l n d authors') rq"
      using sent fixed node_license_block [of self authors']
      by (auto simp: carries_def)
    with sent eff fixed before
    have "staged env (license_block l n d authors') (l, n, d) before 1 self'"
      by (simp add: staged_def)
    then show ?thesis by (auto split: sum.splits)
  qed
  with run show "case create_license env authors' self of
        (Inl e, self') \<Rightarrow> \<exists>j. staged env (license_block l n d authors') (l, n, d) before j self'
      | (Inr x, self') \<Rightarrow> staged env (license_block l n d authors') (l, n, d) before 1 self'"
    by simp
qed

lemma ensures_update_preprint_license:
  "ensures (staged env (license_block l n d authors') (l, n, d) before 1)
     (update_preprint_license env authors' preprint_id)
     (staged env (license_block l n d authors') (l, n, d) before 2)
     (\<lambda>self. \<exists>j. staged env (license_block l n d authors') (l, n, d) before j self)"
  unfolding ensures_def
proof (intro allI impI)
  fix self
  assume st: "staged env (license_block l n d authors') (l, n, d) before 1 self"
  then have fixed: "license_id self = l" "no_license_id self = n" "pub_date self = d"
    by (simp_all add: staged_def)
  from st obtain rq1 where before: "patches self = before @ [rq1]"
    and rq1: "carries env ''node_license'' (license_block l n d authors') rq1"
    by (auto simp: staged_def list_all2_Cons1)
  obtain out self' where run:
    "update_preprint_license env authors' preprint_id self = (out, self')"
    by (cases "update_preprint_license env authors' preprint_id self")
  note eff = update_preprint_license_effect [OF run]
  then obtain rq where sent: "patches self' = patches self @ [rq]" "rq_method rq = PATCH"
      "rq_data rq = Some (json_dumps env None (updated_preprint_struc self authors' preprint_id))"
    by blast
  have "carries env ''license_record'' (license_block l n d authors') rq"
    using sent fixed license_record_block [of self authors' preprint_id]
    by (auto simp: carries_def)
  with sent eff fixed before rq1
  have "staged env (license_block l n d authors') (l, n, d) before 2 self'"
    by (simp add: staged_def)
  then have "case out of Inl e \<Rightarrow> \<exists>j. staged env (license_block l n d authors') (l, n, d) before j self'
      | Inr x \<Rightarrow> staged env (license_block l n d authors') (l, n, d) before 2 self'"
    by (auto split: sum.splits)
  with run show "case update_preprint_license env authors' preprint_id self of
        (Inl e, self') \<Rightarrow> \<exists>j. staged env (license_block l n d authors') (l, n, d) before j self'
      | (Inr x, self') \<Rightarrow> staged env (license_block l n d authors') (l, n, d) before 2 self'"
    by simp
qed

lemma ensuresD:
  assumes "ensures P m Q E" and "P self"
  shows "case m self of (Inl e, self') \<Rightarrow> E self' | (Inr x, self') \<Rightarrow> Q self'"
  using assms by (simp add: ensures_def)

lemmas quiet_calls = quiet_steps quiet_create_node quiet_get_newnode_osf_storage
  quiet_add_contributors quiet_create_preprint

lemma quiet_assign_headers: "quiet (assign_headers api_key')"
  by (simp add: quiet_def assign_headers_def license_view_def patches_def)

lemma ensures_remote_calls:
  "ensures (staged env (license_block l n d authors') (l, n, d) before 0)
     (remote_calls env pdf api_key' abstract' tags authors' records')
     (staged env (license_block l n d authors') (l, n, d) before 2)
     (\<lambda>self. \<exists>j. staged env (license_block l n d authors') (l, n, d) before j self)"
  unfolding remote_calls_def
  apply (rule ensures_bind, rule ensures_quiet, (rule quiet_assign_headers quiet_calls; simp))+
  apply (rule ensures_bind, rule ensures_create_license)
  apply (rule ensures_bind, rule ensures_quiet, (rule quiet_calls; simp))+
  apply (rule ensures_bind, rule ensures_update_preprint_license)
  apply (rule ensures_bind, rule ensures_quiet, (rule quiet_calls; simp))+
  apply (rule ensures_quiet, rule quiet_do_log)
  done

lemma staged_cases:
  assumes "staged env block fixed before j self"
  shows "patches self = before \<or>
         (\<exists>rq. patches self = before @ [rq] \<and> carries env ''node_license'' block rq) \<or>
         (\<exists>rq1 rq2. patches self = before @ [rq1, rq2] \<and>
            carries env ''node_license'' block rq1 \<and> carries env ''license_record'' block rq2)"
proof -
  consider "j = 0" | "j = 1" | "2 \<le> j" by linarith
  then show ?thesis
  proof cases
    case 1
    with assms show ?thesis by (simp add: staged_def)
  next
    case 2
    with assms show ?thesis by (auto simp: staged_def list_all2_Cons1)
  next
    case 3
    with assms show ?thesis by (auto simp: staged_def list_all2_Cons1)
  qed
qed

lemma staged_both:
  assumes "staged env block fixed before 2 self"
  shows "\<exists>rq1 rq2. patches self = before @ [rq1, rq2] \<and>
            carries env ''node_license'' block rq1 \<and> carries env ''license_record'' block rq2"
  using assms by (auto simp: staged_def list_all2_Cons1)

text \<open>
  C8. In every attempt, the PATCH requests \<open>submit_deposit\<close> sends are, in this order and
  as far as the attempt gets, the node update and the preprint update; an attempt that
  returns has sent both. The node update carries under \<open>node_license\<close>, and the preprint
  update under \<open>license_record\<close>, the block of the attempt: the year and the authors'
  full names as copyright holders when the license selected in the form is the
  "no license" identifier of the instance, and the empty block for any other license.
  That identifier is the one \<open>__init__\<close> chooses by the endpoint of the repository.
\<close>

theorem license_blocks_follow_selection:
  assumes "submit_deposit env pdf form dry_run self = (out, self')"
  shows "(patches self' = patches self \<or>
          (\<exists>rq. patches self' = patches self @ [rq] \<and>
             carries env ''node_license'' (attempt_block form self) rq) \<or>
          (\<exists>rq1 rq2. patches self' = patches self @ [rq1, rq2] \<and>
             carries env ''node_license'' (attempt_block form self) rq1 \<and>
             carries env ''license_record'' (attempt_block form self) rq2)) \<and>
         (\<forall>r. out = Inr r \<longrightarrow>
            (\<exists>rq1 rq2. patches self' = patches self @ [rq1, rq2] \<and>
               carries env ''node_license'' (attempt_block form self) rq1 \<and>
               carries env ''license_record'' (attempt_block form self) rq2)) \<and>
         no_license_id (OSFProtocol_init repository' instance) =
           (if endpoint repository' = ''https://test-api.osf.io/''
            then ''58fd62fcda3e2400012ca5cc'' else ''563c1cf88c5e4a3877f9e965'')"
proof -
  let ?d = "take (length (date (paper self)) - 6) (date (paper self))"
  let ?block = "license_block (cd_license form) (no_license_id self) ?d (authors (paper self))"
  let ?fixed = "(cd_license form, no_license_id self, ?d)"
  let ?self2 = "self\<lparr>license_id := cd_license form, pub_date := ?d\<rparr>"
  have block: "attempt_block form self = ?block"
    by (simp add: attempt_block_def)
  have init: "no_license_id (OSFProtocol_init repository' instance) =
           (if endpoint repository' = ''https://test-api.osf.io/''
            then ''58fd62fcda3e2400012ca5cc'' else ''563c1cf88c5e4a3877f9e965'')"
    by (simp add: OSFProtocol_init_def Let_def)
  let ?some = "patches self' = patches self \<or>
          (\<exists>rq. patches self' = patches self @ [rq] \<and> carries env ''node_license'' ?block rq) \<or>
          (\<exists>rq1 rq2. patches self' = patches self @ [rq1, rq2] \<and>
             carries env ''node_license'' ?block rq1 \<and> carries env ''license_record'' ?block rq2)"
  let ?both = "\<exists>rq1 rq2. patches self' = patches self @ [rq1, rq2] \<and>
             carries env ''node_license'' ?block rq1 \<and> carries env ''license_record'' ?block rq2"
  have main: "?some \<and> (\<forall>r. out = Inr r \<longrightarrow> ?both)"
  proof (cases "api_url self = [] \<or> api_key (repository self) = None")
    case True
    with assms have "\<exists>e. out = Inl e" and "self' = self"
      by (auto simp: submit_deposit_def raise_def split: if_splits)
    then show ?thesis by auto
  next
    case False
    then obtain key where key: "api_key (repository self) = Some key" and url: "api_url self \<noteq> []"
      by auto
    have start: "staged env ?block ?fixed (patches self) 0 ?self2"
      by (simp add: staged_def patches_def)
    obtain res self3 where calls: "remote_calls env pdf key (cd_abstract form) (create_tags form)
        (authors (paper self)) (records (paper self)) ?self2 = (res, self3)"
      by (cases "remote_calls env pdf key (cd_abstract form) (create_tags form)
        (authors (paper self)) (records (paper self)) ?self2")
    from ensuresD [OF ensures_remote_calls start, of pdf key "cd_abstract form" "create_tags form"
        "records (paper self)"] calls
    have after: "case res of Inl e \<Rightarrow> \<exists>j. staged env ?block ?fixed (patches self) j self3
        | Inr x \<Rightarrow> staged env ?block ?fixed (patches self) 2 self3"
      by (simp split: sum.splits)
    from assms key url calls have out: "self' = self3"
      "(\<exists>e. res = Inl e \<and> out = Inl e) \<or> (\<exists>u r. res = Inr u \<and> out = Inr r)"
      by (auto simp: submit_deposit_def bind_def lift_def return_def default_result Let_def
          split: sum.splits)
    from after out have some: "\<exists>j. staged env ?block ?fixed (patches self) j self'"
      by (auto split: sum.splits)
    from after out have both: "\<forall>r. out = Inr r \<longrightarrow> staged env ?block ?fixed (patches self) 2 self'"
      by (auto split: sum.splits)
    from some obtain j where "staged env ?block ?fixed (patches self) j self'" ..
    then have ?some by (rule staged_cases)
    moreover from both have "\<forall>r. out = Inr r \<longrightarrow> ?both"
      using staged_both by blast
    ultimately show ?thesis by (rule conjI)
  qed
  from main init show ?thesis
    unfolding block by (intro conjI) blast+
qed

theorem license_blocks_follow_selection_witness:
  "(\<exists>rq1 rq2.
      patches (snd (submit_deposit sample_env ''/tmp/article.pdf'' sample_form False
                      sample_protocol)) = [rq1, rq2] \<and>
      carries sample_env ''node_license'' (attempt_block sample_form sample_protocol) rq1 \<and>
      carries sample_env ''license_record'' (attempt_block sample_form sample_protocol) rq2) \<and>
   attempt_block sample_form sample_protocol =
     JObject [(''year'', JString ''2017''),
       (''copyright_holders'',
        JArray [JString ''Ada Lovelace'', JString ''Alan Turing'', JString ''Emmy Noether''])] \<and>
   attempt_block (sample_form\<lparr>cd_license := ''563c1cf88c5e4a3877f9e965''\<rparr>) sample_protocol =
     JObject []"
proof -
  have sp: "no_license_id sample_protocol = ''58fd62fcda3e2400012ca5cc''"
    "paper sample_protocol = sample_paper" "sent sample_protocol = []"
    by (simp_all add: sample_protocol_def OSFProtocol_init_deposit_def init_deposit_def
        OSFProtocol_init_def blank_def sample_repository_def Let_def)
  have b1: "attempt_block sample_form sample_protocol =
     JObject [(''year'', JString ''2017''),
       (''copyright_holders'',
        JArray [JString ''Ada Lovelace'', JString ''Alan Turing'', JString ''Emmy Noether''])]"
    by (simp add: attempt_block_def license_block_def sp sample_form_def sample_paper_def)
  have b2: "attempt_block (sample_form\<lparr>cd_license := ''563c1cf88c5e4a3877f9e965''\<rparr>)
      sample_protocol = JObject []"
    by (simp add: attempt_block_def license_block_def sp)
  obtain out self' where run:
    "submit_deposit sample_env ''/tmp/article.pdf'' sample_form False sample_protocol = (out, self')"
    by (cases "submit_deposit sample_env ''/tmp/article.pdf'' sample_form False sample_protocol")
  with sample_run obtain r where r: "out = Inr r"
    by (simp add: Let_def)
  have "\<forall>r. out = Inr r \<longrightarrow>
      (\<exists>rq1 rq2. patches self' = patches sample_protocol @ [rq1, rq2] \<and>
         carries sample_env ''node_license'' (attempt_block sample_form sample_protocol) rq1 \<and>
         carries sample_env ''license_record'' (attempt_block sample_form sample_protocol) rq2)"
    by (rule license_blocks_follow_selection [OF run, THEN conjunct2, THEN conjunct1])
  with r have "\<exists>rq1 rq2. patches self' = patches sample_protocol @ [rq1, rq2] \<and>
         carries sample_env ''node_license'' (attempt_block sample_form sample_protocol) rq1 \<and>
         carries sample_env ''license_record'' (attempt_block sample_form sample_protocol) rq2"
    by blast
  moreover have "patches sample_protocol = []"
    by (simp add: patches_def sp)
  ultimately have both: "\<exists>rq1 rq2.
      patches (snd (submit_deposit sample_env ''/tmp/article.pdf'' sample_form False
                      sample_protocol)) = [rq1, rq2] \<and>
      carries sample_env ''node_license'' (attempt_block sample_form sample_protocol) rq1 \<and>
      carries sample_env ''license_record'' (attempt_block sample_form sample_protocol) rq2"
    using run by simp
  show ?thesis by (intro conjI both b1 b2)
qed

end
